theory Spec2Isabelle
  imports Main "HOL-Library.Word" "HOL-Library.Sublist"
begin

section \<open>The image relay pipeline of \<^verbatim>\<open>relay/image_handler.go\<close>\<close>

text \<open>
  A shallow embedding of the two functions of \<^verbatim>\<open>src/relay/image_handler.go\<close>:
  \<^verbatim>\<open>ImageHelper\<close> (lines 24-152) and \<^verbatim>\<open>getImageCountAndSizeInfo\<close> (lines 155-211).

  Conventions.
  \<^item> Go's \<^verbatim>\<open>int\<close>, \<^verbatim>\<open>uint\<close> and \<^verbatim>\<open>int64\<close> are 64-bit words; signed comparisons
    are written \<open><s\<close>, and \<^verbatim>\<open>int(x)\<close> of a \<^verbatim>\<open>uint\<close> keeps the bit pattern.
  \<^item> Go strings and byte slices are \<open>string\<close> (lists of 8-bit characters); the Chinese
    text of the log line is written as its UTF-8 bytes.
  \<^item> A Go \<^verbatim>\<open>error\<close> value is its message, a \<open>string\<close>.
  \<^item> Everything the pipeline can mutate through the pointers it hands out (the gin
    context, the relay info, the adaptor instance, process-wide settings) lives in
    one record \<open>World\<close> that is passed through every call that receives such a pointer.
  \<^item> The packages \<^verbatim>\<open>common\<close>, \<^verbatim>\<open>helper\<close>, \<^verbatim>\<open>service\<close>, \<^verbatim>\<open>types\<close>,
    \<^verbatim>\<open>relaycommon\<close> and the adaptors are not part of the file; their functions are
    the fields of the record \<open>Deps\<close>, so every theorem holds for all of their behaviours.
  \<^item> Calls to the logger and to \<^verbatim>\<open>time.Now\<close> only write log lines and are left out.
\<close>

subsection \<open>Numbers as text\<close>

text \<open>\<^verbatim>\<open>%d\<close> of \<^verbatim>\<open>fmt.Sprintf\<close> on a non-negative integer.\<close>

fun show_nat :: "nat \<Rightarrow> string" where
  "show_nat n =
     (if n < 10 then [char_of (48 + n)]
      else show_nat (n div 10) @ [char_of (48 + n mod 10)])"

declare show_nat.simps [simp del]

text \<open>\<^verbatim>\<open>%d\<close> on a Go \<^verbatim>\<open>int\<close> (64-bit, two's complement).\<close>

definition show_int :: "64 word \<Rightarrow> string" where
  "show_int i = (if i <s 0 then CHR ''-'' # show_nat (nat (- sint i)) else show_nat (nat (sint i)))"

subsection \<open>The multipart form\<close>

text \<open>
  \<^verbatim>\<open>multipart.FileHeader\<close>: only \<^verbatim>\<open>Size\<close> (an \<^verbatim>\<open>int64\<close>) is read; the field is called
  \<open>FileSize\<close> here because the image request has a field \<^verbatim>\<open>Size\<close> of its own.
\<close>

record FileHeader =
  Filename :: string
  FileSize :: "64 word"

text \<open>
  \<^verbatim>\<open>mf.File\<close>, a Go \<^verbatim>\<open>map[string][]*multipart.FileHeader\<close>, as an association list
  with one entry per key. Go ranges over a map in an unspecified order: the list's
  order stands for the order of one run.
\<close>

type_synonym Form = "(string \<times> FileHeader list) list"

text \<open>\<^verbatim>\<open>files, exists = mf.File[key]\<close>: a missing key gives the nil slice and \<^verbatim>\<open>false\<close>.\<close>

definition File_index :: "Form \<Rightarrow> string \<Rightarrow> FileHeader list \<times> bool" where
  "File_index mf key = (case map_of mf key of None \<Rightarrow> ([], False) | Some files \<Rightarrow> (files, True))"

text \<open>
  The loop of lines 173-178: \<^verbatim>\<open>for fieldName, files := range mf.File\<close>, carrying
  \<^verbatim>\<open>foundArrayImages\<close> and \<^verbatim>\<open>imageFiles\<close>.
\<close>

fun rangeArrayImages :: "Form \<Rightarrow> bool \<times> FileHeader list \<Rightarrow> bool \<times> FileHeader list" where
  "rangeArrayImages [] acc = acc"
| "rangeArrayImages ((fieldName, files) # rest) (foundArrayImages, imageFiles) =
     (if prefix ''image['' fieldName \<and> length files > 0
      then rangeArrayImages rest (True, imageFiles @ files)
      else rangeArrayImages rest (foundArrayImages, imageFiles))"

text \<open>The loop of lines 195-197: \<^verbatim>\<open>totalSize += file.Size\<close>, wrapping at 64 bits.\<close>

fun sumSizes :: "FileHeader list \<Rightarrow> 64 word \<Rightarrow> 64 word" where
  "sumSizes [] totalSize = totalSize"
| "sumSizes (file # rest) totalSize = sumSizes rest (totalSize + FileSize file)"

text \<open>
  Lines 200-208. \<^verbatim>\<open>fmt.Sprintf("%.1f", float64(totalSize)/divisor)\<close> is floating-point
  formatting of the Go library: it is the parameter \<open>sprintf_f1\<close>, given the total and
  the divisor.
\<close>

definition formatSizeInfo :: "(64 word \<Rightarrow> 64 word \<Rightarrow> string) \<Rightarrow> 64 word \<Rightarrow> string" where
  "formatSizeInfo sprintf_f1 totalSize =
     (if 0 <s totalSize then
        (if totalSize <s 1024 then show_nat (unat totalSize) @ '' B''
         else if totalSize <s 1024 * 1024 then sprintf_f1 totalSize 1024 @ '' KB''
         else sprintf_f1 totalSize (1024 * 1024) @ '' MB'')
      else '''')"

text \<open>
  Lines 164-210, from the form on: the choice of \<^verbatim>\<open>imageFiles\<close> by the nested
  \<^verbatim>\<open>if\<close>s, the two early returns, the sum and the formatting.
\<close>

definition countAndSizeOfForm :: "(64 word \<Rightarrow> 64 word \<Rightarrow> string) \<Rightarrow> Form \<Rightarrow> nat \<times> string" where
  "countAndSizeOfForm sprintf_f1 mf =
     (let (imageFiles1, exists1) = File_index mf ''image'' in
      if \<not> exists1 \<or> length imageFiles1 = 0 then
        (let (imageFiles2, exists2) = File_index mf ''image[]'' in
         if \<not> exists2 \<or> length imageFiles2 = 0 then
           (let (foundArrayImages, imageFiles3) = rangeArrayImages mf (False, imageFiles2) in
            if \<not> foundArrayImages \<and> length imageFiles3 = 0 then (0, '''')
            else if length imageFiles3 = 0 then (0, '''')
            else (length imageFiles3, formatSizeInfo sprintf_f1 (sumSizes imageFiles3 0)))
         else if length imageFiles2 = 0 then (0, '''')
         else (length imageFiles2, formatSizeInfo sprintf_f1 (sumSizes imageFiles2 0)))
      else if length imageFiles1 = 0 then (0, '''')
      else (length imageFiles1, formatSizeInfo sprintf_f1 (sumSizes imageFiles1 0)))"

subsection \<open>Errors\<close>

text \<open>
  The package \<^verbatim>\<open>types\<close> is not part of the file. An error value is the constructor
  call that made it, with its arguments: \<^verbatim>\<open>types.NewError(err, code, opts...)\<close>,
  \<^verbatim>\<open>types.NewErrorWithStatusCode(err, code, status, opts...)\<close> and
  \<^verbatim>\<open>types.NewOpenAIError(err, code, status)\<close>. \<open>ForeignError\<close> is an error value
  that a collaborator built: its message, its HTTP status and its retry-skip flag.
\<close>

datatype ErrorCode =
    ErrorCodeInvalidRequest
  | ErrorCodeChannelModelMappedError
  | ErrorCodeInvalidApiType
  | ErrorCodeReadRequestBodyFailed
  | ErrorCodeConvertRequestFailed
  | ErrorCodeChannelParamOverrideInvalid
  | ErrorCodeDoRequestFailed

datatype NewAPIErrorOptions = ErrOptionWithSkipRetry

datatype NewAPIError =
    NewError string ErrorCode "NewAPIErrorOptions list"
  | NewErrorWithStatusCode string ErrorCode int "NewAPIErrorOptions list"
  | NewOpenAIError string ErrorCode int
  | ForeignError string int bool

text \<open>
  Modelled from the spec: \<^verbatim>\<open>types.ErrOptionWithSkipRetry\<close> and the error's fields are
  not in the file. The spec's APIError carries an error kind and a retry-eligibility
  flag; the kind is the code given to the constructor, and the error is non-retryable
  (carries the retry-skip flag) when the option was given to the constructor.
\<close>

fun errorCodeOf :: "NewAPIError \<Rightarrow> ErrorCode option" where
  "errorCodeOf (NewError err code opts) = Some code"
| "errorCodeOf (NewErrorWithStatusCode err code status opts) = Some code"
| "errorCodeOf (NewOpenAIError err code status) = Some code"
| "errorCodeOf (ForeignError err status skip) = None"

fun skipRetry :: "NewAPIError \<Rightarrow> bool" where
  "skipRetry (NewError err code opts) = (ErrOptionWithSkipRetry \<in> set opts)"
| "skipRetry (NewErrorWithStatusCode err code status opts) = (ErrOptionWithSkipRetry \<in> set opts)"
| "skipRetry (NewOpenAIError err code status) = False"
| "skipRetry (ForeignError err status skip) = skip"

definition StatusOK :: int where "StatusOK = 200"
definition StatusBadRequest :: int where "StatusBadRequest = 400"
definition StatusInternalServerError :: int where "StatusInternalServerError = 500"

subsection \<open>Requests, responses, usage\<close>

text \<open>
  \<^verbatim>\<open>dto.ImageRequest\<close>: the fields the pipeline reads. \<^verbatim>\<open>N\<close> is converted with
  \<^verbatim>\<open>int(request.N)\<close> and printed with \<^verbatim>\<open>%d\<close>: an unsigned machine integer.
\<close>

record ImageRequest =
  Model :: string
  N :: "64 word"
  Size :: string
  Quality :: string

text \<open>\<^verbatim>\<open>info.Request\<close> is an interface value; line 30 asserts its dynamic type.\<close>

datatype Request_any = ImageRequestPtr ImageRequest | OtherRequest string

record RelayInfo =
  ApiType :: "64 word"
  IsStream :: bool
  PassThroughBodyEnabled :: bool
  ParamOverride :: "(string \<times> string) list"
  Request :: Request_any

text \<open>\<^verbatim>\<open>dto.Usage\<close>, token counts of type \<^verbatim>\<open>int\<close>.\<close>

record Usage =
  PromptTokens :: "64 word"
  CompletionTokens :: "64 word"
  TotalTokens :: "64 word"

text \<open>
  The conversion \<^verbatim>\<open>int(request.N)\<close> of lines 122 and 125, from \<^verbatim>\<open>uint\<close> to \<^verbatim>\<open>int\<close>:
  the 64 bits are kept and read as two's complement.
\<close>

definition int_of_uint :: "64 word \<Rightarrow> 64 word" where
  "int_of_uint u = ucast u"

text \<open>The \<^verbatim>\<open>any\<close> that \<^verbatim>\<open>ConvertImageRequest\<close> returns, as the type switch of line 67 sees it.\<close>

datatype 'p Converted = BytesBuffer string | Payload 'p

text \<open>\<^verbatim>\<open>http.Response\<close>: \<open>ContentType\<close> is \<^verbatim>\<open>Header.Get("Content-Type")\<close>.\<close>

record HttpResponse =
  StatusCode :: int
  ContentType :: string
  Body :: string

text \<open>
  The \<^verbatim>\<open>any\<close> that \<^verbatim>\<open>DoRequest\<close> returns: nil, a \<^verbatim>\<open>*http.Response\<close>, or a value on
  which the assertion \<^verbatim>\<open>resp.(*http.Response)\<close> or the dereference of line 105 panics.
  Likewise the \<^verbatim>\<open>any\<close> of \<^verbatim>\<open>DoResponse\<close> and the assertion \<^verbatim>\<open>usage.(*dto.Usage)\<close>.
\<close>

datatype Resp_any = RespNil | RespHttp HttpResponse | RespOther

datatype Usage_any = UsagePtr Usage | UsageOther

subsection \<open>The mutable world and the collaborators\<close>

text \<open>
  \<open>info\<close> is \<^verbatim>\<open>*relaycommon.RelayInfo\<close>; \<open>Request_MultipartForm\<close> is
  \<^verbatim>\<open>c.Request.MultipartForm\<close> (\<open>None\<close> for nil); \<open>ParseMultipartForm\<close> is what
  \<^verbatim>\<open>c.MultipartForm()\<close> does when it has to parse the body: it returns the parsed form,
  which it has stored in \<^verbatim>\<open>c.Request.MultipartForm\<close>, or it returns an error, and then
  \<^verbatim>\<open>c.Request.MultipartForm\<close> holds whatever form the parser has stored by then (\<open>None\<close>
  if none); \<open>status_code_mapping\<close> is
  \<^verbatim>\<open>c.GetString("status_code_mapping")\<close>; \<open>PassThroughRequestEnabled\<close> is the field of
  \<^verbatim>\<open>model_setting.GetGlobalSettings()\<close>. The record's extension holds everything else
  a collaborator can reach (the adaptor's own fields, the rest of the gin context).
\<close>

record World =
  info :: RelayInfo
  Request_MultipartForm :: "Form option"
  ParseMultipartForm :: "(string \<times> Form option) + Form"
  status_code_mapping :: string
  PassThroughRequestEnabled :: bool

text \<open>
  The collaborators. A function that receives \<^verbatim>\<open>c\<close>, \<^verbatim>\<open>info\<close> or the adaptor takes
  the world and returns the new one; \<open>'a\<close> names an adaptor instance, \<open>'p\<close> is a
  converted payload that is not a byte buffer. \<^verbatim>\<open>ModelMappedHelper\<close> also returns the
  request it has mutated. A function that receives none of them (\<^verbatim>\<open>DeepCopy\<close>,
  \<^verbatim>\<open>GetAdaptor\<close>, \<^verbatim>\<open>Marshal\<close>, \<^verbatim>\<open>ApplyParamOverride\<close>, \<^verbatim>\<open>RelayErrorHandler\<close>,
  \<^verbatim>\<open>ResetStatusCode\<close>) is a function of its arguments. \<^verbatim>\<open>service.RelayErrorHandler\<close>
  returns an error for every response, as the specification's ErrorInterpreter does;
  \<^verbatim>\<open>service.ResetStatusCode\<close> mutates the error it is given: it returns the mutated error.
\<close>

record ('x, 'a, 'p) Deps =
  InitChannelMeta :: "'x World_scheme \<Rightarrow> 'x World_scheme"
  DeepCopy :: "ImageRequest \<Rightarrow> string + ImageRequest"
  ModelMappedHelper :: "ImageRequest \<Rightarrow> 'x World_scheme \<Rightarrow> (string option \<times> ImageRequest) \<times> 'x World_scheme"
  GetAdaptor :: "64 word \<Rightarrow> 'a option"
  Adaptor_Init :: "'a \<Rightarrow> 'x World_scheme \<Rightarrow> 'x World_scheme"
  GetRequestBody :: "'x World_scheme \<Rightarrow> (string + string) \<times> 'x World_scheme"
  ConvertImageRequest :: "'a \<Rightarrow> ImageRequest \<Rightarrow> 'x World_scheme \<Rightarrow> (string + 'p Converted) \<times> 'x World_scheme"
  Marshal :: "'p \<Rightarrow> string + string"
  ApplyParamOverride :: "string \<Rightarrow> (string \<times> string) list \<Rightarrow> string + string"
  DoRequest :: "'a \<Rightarrow> string \<Rightarrow> 'x World_scheme \<Rightarrow> (string + Resp_any) \<times> 'x World_scheme"
  RelayErrorHandler :: "HttpResponse \<Rightarrow> NewAPIError"
  ResetStatusCode :: "NewAPIError \<Rightarrow> string \<Rightarrow> NewAPIError"
  DoResponse :: "'a \<Rightarrow> HttpResponse option \<Rightarrow> 'x World_scheme \<Rightarrow> (NewAPIError + Usage_any) \<times> 'x World_scheme"
  postConsumeQuota :: "Usage \<Rightarrow> string \<Rightarrow> 'x World_scheme \<Rightarrow> 'x World_scheme"
  Sprintf_f1 :: "64 word \<Rightarrow> 64 word \<Rightarrow> string"

text \<open>
  The calls the pipeline makes, in order, with the arguments the claims speak about.
  The list of calls is an observation of the run: no collaborator can change it.
\<close>

datatype 'p Call =
    is_InitChannelMeta: Call_InitChannelMeta
  | is_DeepCopy: Call_DeepCopy ImageRequest
  | is_ModelMappedHelper: Call_ModelMappedHelper ImageRequest
  | is_GetAdaptor: Call_GetAdaptor "64 word"
  | is_Init: Call_Init
  | is_GetRequestBody: Call_GetRequestBody
  | is_ConvertImageRequest: Call_ConvertImageRequest ImageRequest
  | is_Marshal: Call_Marshal 'p
  | is_ApplyParamOverride: Call_ApplyParamOverride string "(string \<times> string) list"
  | is_DoRequest: Call_DoRequest string
  | is_RelayErrorHandler: Call_RelayErrorHandler HttpResponse
  | is_ResetStatusCode: Call_ResetStatusCode NewAPIError string
  | is_DoResponse: Call_DoResponse "HttpResponse option" RelayInfo
  | is_postConsumeQuota: Call_postConsumeQuota Usage string

text \<open>How a run of \<^verbatim>\<open>ImageHelper\<close> ends: it returns its \<^verbatim>\<open>newAPIError\<close> (nil is \<open>None\<close>) or panics.\<close>

datatype Outcome = Return "NewAPIError option" | Panic

subsection \<open>\<^verbatim>\<open>getImageCountAndSizeInfo\<close>\<close>

text \<open>Lines 155-211: lines 156-162 find the form, \<open>countAndSizeOfForm\<close> is the rest.\<close>

definition getImageCountAndSizeInfo ::
  "(64 word \<Rightarrow> 64 word \<Rightarrow> string) \<Rightarrow> 'x World_scheme \<Rightarrow> (nat \<times> string) \<times> 'x World_scheme" where
  "getImageCountAndSizeInfo sprintf_f1 c =
     (case Request_MultipartForm c of
        Some mf \<Rightarrow> (countAndSizeOfForm sprintf_f1 mf, c)
      | None \<Rightarrow>
          (case ParseMultipartForm c of
             Inl (err, stored) \<Rightarrow> ((0, ''''), c\<lparr>Request_MultipartForm := stored\<rparr>)
           | Inr mf \<Rightarrow> (countAndSizeOfForm sprintf_f1 mf, c\<lparr>Request_MultipartForm := Some mf\<rparr>)))"

subsection \<open>\<^verbatim>\<open>ImageHelper\<close>\<close>

text \<open>
  Lines 28-51: channel metadata, the type assertion, the deep copy, the model mapping,
  the adaptor lookup and \<^verbatim>\<open>adaptor.Init\<close>. The result is the error returned, or the
  request copy and the adaptor.
\<close>

definition ImageHelper_prepare ::
  "('x, 'a, 'p) Deps \<Rightarrow> 'x World_scheme \<Rightarrow> (NewAPIError + ImageRequest \<times> 'a) \<times> 'x World_scheme \<times> 'p Call list" where
  "ImageHelper_prepare d w0 =
     (let w1 = InitChannelMeta d w0 in
      case Request (info w1) of
        OtherRequest typeName \<Rightarrow>
          (Inl (NewErrorWithStatusCode
                  (''invalid request type, expected dto.ImageRequest, got '' @ typeName)
                  ErrorCodeInvalidRequest StatusBadRequest [ErrOptionWithSkipRetry]),
           w1, [Call_InitChannelMeta])
      | ImageRequestPtr imageReq \<Rightarrow>
          (case DeepCopy d imageReq of
             Inl err \<Rightarrow>
               (Inl (NewError (''failed to copy request to ImageRequest: '' @ err)
                       ErrorCodeInvalidRequest [ErrOptionWithSkipRetry]),
                w1, [Call_InitChannelMeta, Call_DeepCopy imageReq])
           | Inr request0 \<Rightarrow>
               (case ModelMappedHelper d request0 w1 of
                  ((Some err, request), w2) \<Rightarrow>
                    (Inl (NewError err ErrorCodeChannelModelMappedError [ErrOptionWithSkipRetry]),
                     w2, [Call_InitChannelMeta, Call_DeepCopy imageReq, Call_ModelMappedHelper request0])
                | ((None, request), w2) \<Rightarrow>
                    (case GetAdaptor d (ApiType (info w2)) of
                       None \<Rightarrow>
                         (Inl (NewError (''invalid api type: '' @ show_int (ApiType (info w2)))
                                 ErrorCodeInvalidApiType [ErrOptionWithSkipRetry]),
                          w2, [Call_InitChannelMeta, Call_DeepCopy imageReq,
                               Call_ModelMappedHelper request0, Call_GetAdaptor (ApiType (info w2))])
                     | Some adaptor \<Rightarrow>
                         (Inr (request, adaptor), Adaptor_Init d adaptor w2,
                          [Call_InitChannelMeta, Call_DeepCopy imageReq,
                           Call_ModelMappedHelper request0, Call_GetAdaptor (ApiType (info w2)),
                           Call_Init])))))"

text \<open>Lines 53-89: the transport body, or the error returned.\<close>

definition ImageHelper_body ::
  "('x, 'a, 'p) Deps \<Rightarrow> 'a \<Rightarrow> ImageRequest \<Rightarrow> 'x World_scheme \<Rightarrow> (NewAPIError + string) \<times> 'x World_scheme \<times> 'p Call list" where
  "ImageHelper_body d adaptor request w =
     (if PassThroughRequestEnabled w \<or> PassThroughBodyEnabled (info w) then
        (case GetRequestBody d w of
           (Inl err, w') \<Rightarrow>
             (Inl (NewErrorWithStatusCode err ErrorCodeReadRequestBodyFailed StatusBadRequest
                     [ErrOptionWithSkipRetry]),
              w', [Call_GetRequestBody])
         | (Inr body, w') \<Rightarrow> (Inr body, w', [Call_GetRequestBody]))
      else
        (case ConvertImageRequest d adaptor request w of
           (Inl err, w') \<Rightarrow>
             (Inl (NewError err ErrorCodeConvertRequestFailed []), w', [Call_ConvertImageRequest request])
         | (Inr (BytesBuffer buf), w') \<Rightarrow> (Inr buf, w', [Call_ConvertImageRequest request])
         | (Inr (Payload convertedRequest), w') \<Rightarrow>
             (case Marshal d convertedRequest of
                Inl err \<Rightarrow>
                  (Inl (NewError err ErrorCodeConvertRequestFailed [ErrOptionWithSkipRetry]),
                   w', [Call_ConvertImageRequest request, Call_Marshal convertedRequest])
              | Inr jsonData \<Rightarrow>
                  (if length (ParamOverride (info w')) > 0 then
                     (case ApplyParamOverride d jsonData (ParamOverride (info w')) of
                        Inl err \<Rightarrow>
                          (Inl (NewError err ErrorCodeChannelParamOverrideInvalid [ErrOptionWithSkipRetry]),
                           w', [Call_ConvertImageRequest request, Call_Marshal convertedRequest,
                                Call_ApplyParamOverride jsonData (ParamOverride (info w'))])
                      | Inr jsonData' \<Rightarrow>
                          (Inr jsonData', w',
                           [Call_ConvertImageRequest request, Call_Marshal convertedRequest,
                            Call_ApplyParamOverride jsonData (ParamOverride (info w'))]))
                   else (Inr jsonData, w', [Call_ConvertImageRequest request, Call_Marshal convertedRequest])))))"

text \<open>
  Lines 91-112: the status-code mapping is read, the request is sent, the stream flag
  is updated, and a response whose status is not 200 is handed to the error handler.
  The result is how the run ends here, or the response (nil is \<open>None\<close>) and the mapping.
\<close>

definition ImageHelper_request ::
  "('x, 'a, 'p) Deps \<Rightarrow> 'a \<Rightarrow> string \<Rightarrow> 'x World_scheme \<Rightarrow> (Outcome + HttpResponse option \<times> string) \<times> 'x World_scheme \<times> 'p Call list" where
  "ImageHelper_request d adaptor requestBody w =
     (let statusCodeMappingStr = status_code_mapping w in
      case DoRequest d adaptor requestBody w of
        (Inl err, w') \<Rightarrow>
          (Inl (Return (Some (NewOpenAIError err ErrorCodeDoRequestFailed StatusInternalServerError))),
           w', [Call_DoRequest requestBody])
      | (Inr RespNil, w') \<Rightarrow> (Inr (None, statusCodeMappingStr), w', [Call_DoRequest requestBody])
      | (Inr RespOther, w') \<Rightarrow> (Inl Panic, w', [Call_DoRequest requestBody])
      | (Inr (RespHttp httpResp), w') \<Rightarrow>
          (let w'' = w'\<lparr>info := (info w')\<lparr>IsStream :=
                         IsStream (info w') \<or> prefix ''text/event-stream'' (ContentType httpResp)\<rparr>\<rparr> in
           if StatusCode httpResp \<noteq> StatusOK then
             (let newAPIError = RelayErrorHandler d httpResp in
              (Inl (Return (Some (ResetStatusCode d newAPIError statusCodeMappingStr))), w'',
               [Call_DoRequest requestBody, Call_RelayErrorHandler httpResp,
                Call_ResetStatusCode newAPIError statusCodeMappingStr]))
           else (Inr (Some httpResp, statusCodeMappingStr), w'', [Call_DoRequest requestBody])))"

text \<open>Lines 128-148: the log line handed to the quota consumer.\<close>

definition logContentOf ::
  "(64 word \<Rightarrow> 64 word \<Rightarrow> string) \<Rightarrow> ImageRequest \<Rightarrow> 'x World_scheme \<Rightarrow> string \<times> 'x World_scheme" where
  "logContentOf sprintf_f1 request c =
     (let quality = (if Quality request = ''hd'' then ''hd'' else ''standard'') in
      if length (Size request) > 0 then
        (let logContent =
               [CHR 0xE5, CHR 0xA4, CHR 0xA7, CHR 0xE5, CHR 0xB0, CHR 0x8F, CHR 0x20] @ Size request @
               [CHR 0x2C, CHR 0x20, CHR 0xE5, CHR 0x93, CHR 0x81, CHR 0xE8, CHR 0xB4, CHR 0xA8, CHR 0x20] @ quality @
               [CHR 0x2C, CHR 0x20, CHR 0xE5, CHR 0xBC, CHR 0xA0, CHR 0xE6, CHR 0x95, CHR 0xB0, CHR 0x20] @
               show_nat (unat (N request));
             ((imageCount, imageSizeInfo), c') = getImageCountAndSizeInfo sprintf_f1 c
         in if imageCount > 0 then
              (let logContent2 = logContent @
                     [CHR 0x2C, CHR 0x20, CHR 0xE8, CHR 0xBE, CHR 0x93, CHR 0xE5, CHR 0x85, CHR 0xA5,
                      CHR 0xE5, CHR 0x9B, CHR 0xBE, CHR 0xE7, CHR 0x89, CHR 0x87, CHR 0x20] @
                     show_nat imageCount @ [CHR 0x20, CHR 0xE5, CHR 0xBC, CHR 0xA0]
               in if imageSizeInfo \<noteq> '''' then (logContent2 @ '' ('' @ imageSizeInfo @ '')'', c')
                  else (logContent2, c'))
            else (logContent, c'))
      else ('''', c))"

text \<open>
  Lines 114-151: the adaptor reconciles the response; its error is remapped and
  returned; otherwise the usage is normalized and the quota is consumed.
\<close>

definition ImageHelper_response ::
  "('x, 'a, 'p) Deps \<Rightarrow> 'a \<Rightarrow> ImageRequest \<Rightarrow> HttpResponse option \<Rightarrow> string \<Rightarrow> 'x World_scheme \<Rightarrow> Outcome \<times> 'x World_scheme \<times> 'p Call list" where
  "ImageHelper_response d adaptor request httpResp statusCodeMappingStr w =
     (case DoResponse d adaptor httpResp w of
        (Inl newAPIError, w') \<Rightarrow>
          (Return (Some (ResetStatusCode d newAPIError statusCodeMappingStr)), w',
           [Call_DoResponse httpResp (info w), Call_ResetStatusCode newAPIError statusCodeMappingStr])
      | (Inr UsageOther, w') \<Rightarrow> (Panic, w', [Call_DoResponse httpResp (info w)])
      | (Inr (UsagePtr usage), w') \<Rightarrow>
          (let usage1 = (if TotalTokens usage = 0 then usage\<lparr>TotalTokens := int_of_uint (N request)\<rparr> else usage);
               usage2 = (if PromptTokens usage1 = 0 then usage1\<lparr>PromptTokens := int_of_uint (N request)\<rparr> else usage1);
               (logContent, w'') = logContentOf (Sprintf_f1 d) request w'
           in (Return None, postConsumeQuota d usage2 logContent w'',
               [Call_DoResponse httpResp (info w), Call_postConsumeQuota usage2 logContent])))"

text \<open>\<^verbatim>\<open>ImageHelper\<close>, lines 24-152: the four parts in sequence.\<close>

definition ImageHelper ::
  "('x, 'a, 'p) Deps \<Rightarrow> 'x World_scheme \<Rightarrow> Outcome \<times> 'x World_scheme \<times> 'p Call list" where
  "ImageHelper d w0 =
     (case ImageHelper_prepare d w0 of
        (Inl newAPIError, w1, calls1) \<Rightarrow> (Return (Some newAPIError), w1, calls1)
      | (Inr (request, adaptor), w1, calls1) \<Rightarrow>
          (case ImageHelper_body d adaptor request w1 of
             (Inl newAPIError, w2, calls2) \<Rightarrow> (Return (Some newAPIError), w2, calls1 @ calls2)
           | (Inr requestBody, w2, calls2) \<Rightarrow>
               (case ImageHelper_request d adaptor requestBody w2 of
                  (Inl outcome, w3, calls3) \<Rightarrow> (outcome, w3, calls1 @ calls2 @ calls3)
                | (Inr (httpResp, statusCodeMappingStr), w3, calls3) \<Rightarrow>
                    (case ImageHelper_response d adaptor request httpResp statusCodeMappingStr w3 of
                       (outcome, w4, calls4) \<Rightarrow> (outcome, w4, calls1 @ calls2 @ calls3 @ calls4)))))"

subsection \<open>Reading the list of calls\<close>

text \<open>
  The place of a call in the source text: the line of \<^verbatim>\<open>ImageHelper\<close> that makes it,
  numbered from 0 in the order of the lines (28, 35, 42, 47, 51, 56, 62, 71, 78, 95,
  107, 114, 109 and 117, 150).
\<close>

fun stage :: "'p Call \<Rightarrow> nat" where
  "stage Call_InitChannelMeta = 0"
| "stage (Call_DeepCopy r) = 1"
| "stage (Call_ModelMappedHelper r) = 2"
| "stage (Call_GetAdaptor t) = 3"
| "stage Call_Init = 4"
| "stage Call_GetRequestBody = 5"
| "stage (Call_ConvertImageRequest r) = 6"
| "stage (Call_Marshal p) = 7"
| "stage (Call_ApplyParamOverride j ov) = 8"
| "stage (Call_DoRequest b) = 9"
| "stage (Call_RelayErrorHandler r) = 10"
| "stage (Call_DoResponse r i) = 11"
| "stage (Call_ResetStatusCode e s) = 12"
| "stage (Call_postConsumeQuota u l) = 13"

subsection \<open>The specification's words\<close>

text \<open>
  Section 4.5 of the specification, usage fallback: if the total-token count is zero,
  substitute the requested image count; the same, independently, for the prompt-token
  count.
\<close>

definition usageFallback_spec :: "Usage \<Rightarrow> 64 word \<Rightarrow> Usage" where
  "usageFallback_spec usage n =
     \<lparr>PromptTokens = (if PromptTokens usage = 0 then int_of_uint n else PromptTokens usage),
      CompletionTokens = CompletionTokens usage,
      TotalTokens = (if TotalTokens usage = 0 then int_of_uint n else TotalTokens usage)\<rparr>"

text \<open>
  Section 4.5 of the specification, the precedence of the image fields, first match
  wins: the field \<^verbatim>\<open>image\<close> with at least one file part; the field \<^verbatim>\<open>image[]\<close> with at
  least one file part; the union of all fields whose name begins with \<^verbatim>\<open>image[\<close>.
\<close>

definition imageParts_spec :: "Form \<Rightarrow> FileHeader list" where
  "imageParts_spec mf =
     (case map_of mf ''image'' of
        Some (part # parts) \<Rightarrow> part # parts
      | _ \<Rightarrow>
          (case map_of mf ''image[]'' of
             Some (part # parts) \<Rightarrow> part # parts
           | _ \<Rightarrow> concat (map snd (filter (\<lambda>(fieldName, files). prefix ''image['' fieldName) mf))))"

subsection \<open>Concrete runs\<close>

text \<open>
  One deployment with a single adaptor (API type 1, instance 7) whose converted
  payload is the model name, a serializer and an override that appends its fields,
  an upstream that answers 200 with JSON, and a reconciliation that reports no tokens.
\<close>

definition example_deps :: "(unit, nat, string) Deps" where
  "example_deps =
     \<lparr>InitChannelMeta = (\<lambda>w. w),
      DeepCopy = (\<lambda>r. Inr r),
      ModelMappedHelper = (\<lambda>r w. ((None, r), w)),
      GetAdaptor = (\<lambda>t. if t = 1 then Some 7 else None),
      Adaptor_Init = (\<lambda>a w. w),
      GetRequestBody = (\<lambda>w. (Inr ''{prompt:cat,n:2,size:1024x1024}'', w)),
      ConvertImageRequest = (\<lambda>a r w. (Inr (Payload (Model r)), w)),
      Marshal = (\<lambda>p. Inr (''{model:'' @ p @ ''}'')),
      ApplyParamOverride =
        (\<lambda>j ov. Inr (butlast j @ concat (map (\<lambda>(k, v). '','' @ k @ '':'' @ v) ov) @ ''}'')),
      DoRequest =
        (\<lambda>a b w. (Inr (RespHttp \<lparr>StatusCode = 200, ContentType = ''application/json'', Body = ''{}''\<rparr>), w)),
      RelayErrorHandler = (\<lambda>r. ForeignError ''bad response status code'' (StatusCode r) False),
      ResetStatusCode =
        (\<lambda>e s. case e of ForeignError m c k \<Rightarrow> if s = [] then e else ForeignError m 500 k | _ \<Rightarrow> e),
      DoResponse =
        (\<lambda>a r w. (Inr (UsagePtr \<lparr>PromptTokens = 0, CompletionTokens = 0, TotalTokens = 0\<rparr>), w)),
      postConsumeQuota = (\<lambda>u l w. w),
      Sprintf_f1 = (\<lambda>total divisor. ''?'')\<rparr>"

definition example_request :: ImageRequest where
  "example_request = \<lparr>Model = ''dall-e-3'', N = 2, Size = ''1024x1024'', Quality = ''hd''\<rparr>"

definition example_world :: World where
  "example_world =
     \<lparr>info = \<lparr>ApiType = 1, IsStream = False, PassThroughBodyEnabled = False,
              ParamOverride = [], Request = ImageRequestPtr example_request\<rparr>,
      Request_MultipartForm = None,
      ParseMultipartForm = Inl (''request Content-Type is not multipart/form-data'', None),
      status_code_mapping = ''{502:500}'',
      PassThroughRequestEnabled = False\<rparr>"

text \<open>The same world with the channel's passthrough flag set.\<close>

definition passthrough_world :: World where
  "passthrough_world = example_world\<lparr>info := (info example_world)\<lparr>PassThroughBodyEnabled := True,
      ParamOverride := [(''quality'', ''hd'')]\<rparr>\<rparr>"

text \<open>The same world with a parameter override that sets a field the payload lacks.\<close>

definition override_world :: World where
  "override_world = example_world\<lparr>info := (info example_world)\<lparr>ParamOverride := [(''quality'', ''hd'')]\<rparr>\<rparr>"

text \<open>An upstream that answers 502.\<close>

definition bad_gateway_deps :: "(unit, nat, string) Deps" where
  "bad_gateway_deps = example_deps\<lparr>DoRequest :=
     (\<lambda>a b w. (Inr (RespHttp \<lparr>StatusCode = 502, ContentType = ''text/html'', Body = ''''\<rparr>), w))\<rparr>"

text \<open>An upstream that answers 200 with an event stream.\<close>

definition event_stream_deps :: "(unit, nat, string) Deps" where
  "event_stream_deps = example_deps\<lparr>DoRequest :=
     (\<lambda>a b w. (Inr (RespHttp \<lparr>StatusCode = 200, ContentType = ''text/event-stream; charset=utf-8'',
                              Body = ''''\<rparr>), w))\<rparr>"

text \<open>An adaptor whose conversion returns a \<^verbatim>\<open>*bytes.Buffer\<close>.\<close>

definition raw_buffer_deps :: "(unit, nat, string) Deps" where
  "raw_buffer_deps = example_deps\<lparr>ConvertImageRequest :=
     (\<lambda>a r w. (Inr (BytesBuffer ''--boundary multipart body--''), w))\<rparr>"

text \<open>An adaptor whose conversion fails, and a serializer that fails.\<close>

definition convert_fails_deps :: "(unit, nat, string) Deps" where
  "convert_fails_deps = example_deps\<lparr>ConvertImageRequest :=
     (\<lambda>a r w. (Inl ''not implemented'', w))\<rparr>"

definition marshal_fails_deps :: "(unit, nat, string) Deps" where
  "marshal_fails_deps = example_deps\<lparr>Marshal := (\<lambda>p. Inl ''json: unsupported value'')\<rparr>"

text \<open>No adaptor is registered, and the model mapping fails.\<close>

definition unregistered_deps :: "(unit, nat, string) Deps" where
  "unregistered_deps = example_deps\<lparr>GetAdaptor := (\<lambda>t. None),
     ModelMappedHelper := (\<lambda>r w. ((Some ''model_mapping contains cycle'', r), w))\<rparr>"

text \<open>Two forms of section 8 of the specification.\<close>

definition form_image_and_array :: Form where
  "form_image_and_array =
     [(''image[]'', [\<lparr>Filename = ''b.png'', FileSize = 700\<rparr>, \<lparr>Filename = ''c.png'', FileSize = 900\<rparr>]),
      (''image'', [\<lparr>Filename = ''a.png'', FileSize = 512\<rparr>])]"

definition form_indexed :: Form where
  "form_indexed =
     [(''image[0]'', [\<lparr>Filename = ''a.png'', FileSize = 300\<rparr>]),
      (''mask'', [\<lparr>Filename = ''m.png'', FileSize = 100\<rparr>]),
      (''image[1]'', [\<lparr>Filename = ''b.png'', FileSize = 212\<rparr>])]"

subsection \<open>Collaborators that keep a journal\<close>

text \<open>
  A second deployment, whose world carries a journal: every collaborator that receives
  the world appends an entry when it is applied. The journal of the final world is then
  the sequence of applications the run really made, with the arguments they were given.
\<close>

datatype Applied =
    Applied_InitChannelMeta
  | Applied_ModelMappedHelper ImageRequest
  | Applied_Init
  | Applied_GetRequestBody
  | Applied_ConvertImageRequest ImageRequest
  | Applied_DoRequest string
  | Applied_DoResponse
  | is_consumed: Applied_postConsumeQuota Usage string

definition journal :: "Applied \<Rightarrow> Applied list World_scheme \<Rightarrow> Applied list World_scheme" where
  "journal entry w = World.more_update (\<lambda>entries. entries @ [entry]) w"

text \<open>
  Reading a journal: the usage of each quota consumption, the body of each request
  sent, and the place of each entry in the source text (numbered as \<open>stage\<close> numbers
  the calls).
\<close>

fun consumed :: "Applied \<Rightarrow> Usage list" where
  "consumed (Applied_postConsumeQuota usage logContent) = [usage]"
| "consumed entry = []"

fun sent :: "Applied \<Rightarrow> string list" where
  "sent (Applied_DoRequest requestBody) = [requestBody]"
| "sent entry = []"

fun applied_stage :: "Applied \<Rightarrow> nat" where
  "applied_stage Applied_InitChannelMeta = 0"
| "applied_stage (Applied_ModelMappedHelper r) = 2"
| "applied_stage Applied_Init = 4"
| "applied_stage Applied_GetRequestBody = 5"
| "applied_stage (Applied_ConvertImageRequest r) = 6"
| "applied_stage (Applied_DoRequest b) = 9"
| "applied_stage Applied_DoResponse = 11"
| "applied_stage (Applied_postConsumeQuota u l) = 13"

definition journal_deps :: "(Applied list, nat, string) Deps" where
  "journal_deps =
     \<lparr>InitChannelMeta = journal Applied_InitChannelMeta,
      DeepCopy = (\<lambda>r. Inr r),
      ModelMappedHelper = (\<lambda>r w. ((None, r), journal (Applied_ModelMappedHelper r) w)),
      GetAdaptor = (\<lambda>t. if t = 1 then Some 7 else None),
      Adaptor_Init = (\<lambda>a. journal Applied_Init),
      GetRequestBody = (\<lambda>w. (Inr ''{prompt:cat,n:2,size:1024x1024}'', journal Applied_GetRequestBody w)),
      ConvertImageRequest = (\<lambda>a r w. (Inr (Payload (Model r)), journal (Applied_ConvertImageRequest r) w)),
      Marshal = (\<lambda>p. Inr (''{model:'' @ p @ ''}'')),
      ApplyParamOverride =
        (\<lambda>j ov. Inr (butlast j @ concat (map (\<lambda>(k, v). '','' @ k @ '':'' @ v) ov) @ ''}'')),
      DoRequest =
        (\<lambda>a b w. (Inr (RespHttp \<lparr>StatusCode = 200, ContentType = ''application/json'', Body = ''{}''\<rparr>),
                   journal (Applied_DoRequest b) w)),
      RelayErrorHandler = (\<lambda>r. ForeignError ''bad response status code'' (StatusCode r) False),
      ResetStatusCode =
        (\<lambda>e s. case e of ForeignError m c k \<Rightarrow> if s = [] then e else ForeignError m 500 k | _ \<Rightarrow> e),
      DoResponse =
        (\<lambda>a r w. (Inr (UsagePtr \<lparr>PromptTokens = 0, CompletionTokens = 7, TotalTokens = 0\<rparr>),
                   journal Applied_DoResponse w)),
      postConsumeQuota = (\<lambda>u l. journal (Applied_postConsumeQuota u l)),
      Sprintf_f1 = (\<lambda>total divisor. ''?'')\<rparr>"

definition journal_world :: "Applied list World_scheme" where
  "journal_world =
     \<lparr>info = \<lparr>ApiType = 1, IsStream = False, PassThroughBodyEnabled = False,
              ParamOverride = [], Request = ImageRequestPtr example_request\<rparr>,
      Request_MultipartForm = None,
      ParseMultipartForm = Inl (''request Content-Type is not multipart/form-data'', None),
      status_code_mapping = ''{502:500}'',
      PassThroughRequestEnabled = False,
      \<dots> = []\<rparr>"

text \<open>The journal deployment with an upstream that answers 502.\<close>

definition journal_bad_gateway_deps :: "(Applied list, nat, string) Deps" where
  "journal_bad_gateway_deps = journal_deps\<lparr>DoRequest :=
     (\<lambda>a b w. (Inr (RespHttp \<lparr>StatusCode = 502, ContentType = ''text/html'', Body = ''''\<rparr>),
                journal (Applied_DoRequest b) w))\<rparr>"

text \<open>The journal deployment with no adaptor registered.\<close>

definition journal_no_adaptor_deps :: "(Applied list, nat, string) Deps" where
  "journal_no_adaptor_deps = journal_deps\<lparr>GetAdaptor := (\<lambda>t. None)\<rparr>"

text \<open>The journal deployment with an adaptor whose conversion returns a \<^verbatim>\<open>*bytes.Buffer\<close>.\<close>

definition journal_buffer_deps :: "(Applied list, nat, string) Deps" where
  "journal_buffer_deps = journal_deps\<lparr>ConvertImageRequest :=
     (\<lambda>a r w. (Inr (BytesBuffer ''{model:custom}''), journal (Applied_ConvertImageRequest r) w))\<rparr>"

text \<open>The journal world with a non-empty parameter override.\<close>

definition journal_override_world :: "Applied list World_scheme" where
  "journal_override_world =
     journal_world\<lparr>info := (info journal_world)\<lparr>ParamOverride := [(''quality'', ''hd'')]\<rparr>\<rparr>"

text \<open>The journal world with a request for \<open>2 ^ 63\<close> images.\<close>

definition huge_count_request :: ImageRequest where
  "huge_count_request = example_request\<lparr>N := 9223372036854775808\<rparr>"

definition journal_huge_count_world :: "Applied list World_scheme" where
  "journal_huge_count_world =
     journal_world\<lparr>info := (info journal_world)\<lparr>Request := ImageRequestPtr huge_count_request\<rparr>\<rparr>"

section \<open>Facts about the parts of a run\<close>

subsection \<open>Calls and their places\<close>

text \<open>
Each discriminator of a call is a place in the source text.
\<close>

lemma is_stage:
  "is_GetAdaptor c = (stage c = 3)"
  "is_ConvertImageRequest c = (stage c = 6)"
  "is_Marshal c = (stage c = 7)"
  "is_ApplyParamOverride c = (stage c = 8)"
  "is_DoRequest c = (stage c = 9)"
  "is_RelayErrorHandler c = (stage c = 10)"
  "is_DoResponse c = (stage c = 11)"
  "is_ResetStatusCode c = (stage c = 12)"
  "is_postConsumeQuota c = (stage c = 13)"
  by (cases c; simp)+

subsection \<open>A run is a sequence of four parts\<close>

text \<open>
How a run of \<^verbatim>\<open>ImageHelper\<close> ends is decided by the first part that returns; the calls of the
run are the calls of the parts that ran, in order.
\<close>

lemma ImageHelper_cases [consumes 1, case_names prepare_fails body_fails request_ends response]:
  assumes "ImageHelper d w0 = (out, w', calls)"
  obtains
    e where "ImageHelper_prepare d w0 = (Inl e, w', calls)" "out = Return (Some e)"
  | request adaptor w1 calls1 e calls2 where
      "ImageHelper_prepare d w0 = (Inr (request, adaptor), w1, calls1)"
      "ImageHelper_body d adaptor request w1 = (Inl e, w', calls2)"
      "out = Return (Some e)" "calls = calls1 @ calls2"
  | request adaptor w1 calls1 requestBody w2 calls2 calls3 where
      "ImageHelper_prepare d w0 = (Inr (request, adaptor), w1, calls1)"
      "ImageHelper_body d adaptor request w1 = (Inr requestBody, w2, calls2)"
      "ImageHelper_request d adaptor requestBody w2 = (Inl out, w', calls3)"
      "calls = calls1 @ calls2 @ calls3"
  | request adaptor w1 calls1 requestBody w2 calls2 httpResp statusCodeMappingStr w3 calls3 calls4 where
      "ImageHelper_prepare d w0 = (Inr (request, adaptor), w1, calls1)"
      "ImageHelper_body d adaptor request w1 = (Inr requestBody, w2, calls2)"
      "ImageHelper_request d adaptor requestBody w2 = (Inr (httpResp, statusCodeMappingStr), w3, calls3)"
      "ImageHelper_response d adaptor request httpResp statusCodeMappingStr w3 = (out, w', calls4)"
      "calls = calls1 @ calls2 @ calls3 @ calls4"
  using assms unfolding ImageHelper_def
  by (auto split: prod.splits sum.splits)

lemma ImageHelper_prepared_cases [consumes 2, case_names body_fails request_ends response]:
  assumes "ImageHelper d w0 = (out, w', calls)"
    and "ImageHelper_prepare d w0 = (Inr (request, adaptor), w1, calls1)"
  obtains
    e calls2 where
      "ImageHelper_body d adaptor request w1 = (Inl e, w', calls2)"
      "out = Return (Some e)" "calls = calls1 @ calls2"
  | requestBody w2 calls2 calls3 where
      "ImageHelper_body d adaptor request w1 = (Inr requestBody, w2, calls2)"
      "ImageHelper_request d adaptor requestBody w2 = (Inl out, w', calls3)"
      "calls = calls1 @ calls2 @ calls3"
  | requestBody w2 calls2 httpResp statusCodeMappingStr w3 calls3 calls4 where
      "ImageHelper_body d adaptor request w1 = (Inr requestBody, w2, calls2)"
      "ImageHelper_request d adaptor requestBody w2 = (Inr (httpResp, statusCodeMappingStr), w3, calls3)"
      "ImageHelper_response d adaptor request httpResp statusCodeMappingStr w3 = (out, w', calls4)"
      "calls = calls1 @ calls2 @ calls3 @ calls4"
  using assms unfolding ImageHelper_def
  by (auto split: prod.splits sum.splits)

lemma run_prepare_fails:
  assumes "ImageHelper d w0 = (out, w', calls)"
    and "ImageHelper_prepare d w0 = (Inl e, w1, calls1)"
  shows "out = Return (Some e) \<and> calls = calls1 \<and> w' = w1"
  using assms by (simp add: ImageHelper_def)

lemma run_body_fails:
  assumes "ImageHelper d w0 = (out, w', calls)"
    and "ImageHelper_prepare d w0 = (Inr (request, adaptor), w1, calls1)"
    and "ImageHelper_body d adaptor request w1 = (Inl e, w2, calls2)"
  shows "out = Return (Some e) \<and> calls = calls1 @ calls2 \<and> w' = w2"
  using assms by (simp add: ImageHelper_def)

lemma run_request_ends:
  assumes "ImageHelper d w0 = (out, w', calls)"
    and "ImageHelper_prepare d w0 = (Inr (request, adaptor), w1, calls1)"
    and "ImageHelper_body d adaptor request w1 = (Inr requestBody, w2, calls2)"
    and "ImageHelper_request d adaptor requestBody w2 = (Inl outcome, w3, calls3)"
  shows "out = outcome \<and> calls = calls1 @ calls2 @ calls3 \<and> w' = w3"
  using assms by (simp add: ImageHelper_def)

lemma run_response:
  assumes "ImageHelper d w0 = (out, w', calls)"
    and "ImageHelper_prepare d w0 = (Inr (request, adaptor), w1, calls1)"
    and "ImageHelper_body d adaptor request w1 = (Inr requestBody, w2, calls2)"
    and "ImageHelper_request d adaptor requestBody w2 = (Inr (httpResp, s), w3, calls3)"
  shows "\<exists>calls4. ImageHelper_response d adaptor request httpResp s w3 = (out, w', calls4)
           \<and> calls = calls1 @ calls2 @ calls3 @ calls4"
  using assms by (simp add: ImageHelper_def split: prod.splits)

subsection \<open>The calls of each part\<close>

lemma prepare_calls:
  assumes "ImageHelper_prepare d w0 = (r, w1, cs)"
  shows "list_all (\<lambda>c. stage c \<le> 4) cs \<and> sorted_wrt (<) (map stage cs)"
  using assms unfolding ImageHelper_prepare_def Let_def
  by (auto split: Request_any.splits sum.splits prod.splits option.splits)

lemma body_calls:
  assumes "ImageHelper_body d a rq w = (r, w1, cs)"
  shows "list_all (\<lambda>c. 5 \<le> stage c \<and> stage c \<le> 8) cs \<and> sorted_wrt (<) (map stage cs)"
  using assms unfolding ImageHelper_body_def Let_def
  by (auto split: sum.splits prod.splits Converted.splits if_splits)

lemma request_calls:
  assumes "ImageHelper_request d a b w = (r, w1, cs)"
  shows "\<exists>more. cs = Call_DoRequest b # more \<and> list_all (\<lambda>c. stage c \<in> {10, 12}) more
           \<and> sorted_wrt (<) (map stage more) \<and> (\<forall>x. r = Inr x \<longrightarrow> more = [])"
  using assms unfolding ImageHelper_request_def Let_def
  by (auto split: sum.splits prod.splits Resp_any.splits if_splits)

lemma response_calls:
  assumes "ImageHelper_response d a rq h s w = (r, w1, cs)"
  shows "\<exists>more. cs = Call_DoResponse h (info w) # more \<and> list_all (\<lambda>c. 12 \<le> stage c) more
           \<and> sorted_wrt (<) (map stage more)"
  using assms unfolding ImageHelper_response_def Let_def
  by (auto split: sum.splits prod.splits Usage_any.splits if_splits)

lemma request_continues:
  assumes "ImageHelper_request d adaptor requestBody w2 = (Inr (httpResp, s), w3, calls3)"
  shows "calls3 = [Call_DoRequest requestBody] \<and> s = status_code_mapping w2"
  using assms unfolding ImageHelper_request_def Let_def
  by (auto split: sum.splits prod.splits Resp_any.splits if_splits)

lemma run_body_done:
  assumes run: "ImageHelper d w0 = (out, w', calls)"
    and prep: "ImageHelper_prepare d w0 = (Inr (request, adaptor), w1, calls1)"
    and body: "ImageHelper_body d adaptor request w1 = (Inr requestBody, w2, calls2)"
  shows "\<exists>more. calls = calls1 @ calls2 @ Call_DoRequest requestBody # more
           \<and> list_all (\<lambda>c. 10 \<le> stage c) more"
  using run prep
proof (cases rule: ImageHelper_prepared_cases)
  case (body_fails e calls2)
  with body show ?thesis by simp
next
  case (request_ends requestBody' w2' calls2' calls3)
  with body request_calls[OF request_ends(2)] show ?thesis
    by (fastforce simp: list_all_iff)
next
  case (response requestBody' w2' calls2' httpResp statusCodeMappingStr w3 calls3 calls4)
  with body request_calls[OF response(2)] response_calls[OF response(3)] show ?thesis
    by (fastforce simp: list_all_iff)
qed

lemma early_calls:
  assumes "ImageHelper_prepare d w0 = (r1, w1, calls1)"
    and "ImageHelper_body d adaptor request w1' = (r2, w2, calls2)"
  shows "filter (\<lambda>c. 10 \<le> stage c) (calls1 @ calls2 @ [Call_DoRequest requestBody]) = []"
    and "filter is_ResetStatusCode (calls1 @ calls2 @ [Call_DoRequest requestBody]) = []"
    and "filter is_DoResponse (calls1 @ calls2 @ [Call_DoRequest requestBody]) = []"
    and "filter is_postConsumeQuota (calls1 @ calls2 @ [Call_DoRequest requestBody]) = []"
  using prepare_calls[OF assms(1)] body_calls[OF assms(2)]
  by (fastforce simp: is_stage filter_empty_conv list_all_iff)+

lemma prepare_only_calls:
  assumes "ImageHelper_prepare d w0 = (r1, w1, calls1)"
  shows "filter (\<lambda>c. 10 \<le> stage c) calls1 = []"
    and "filter is_ResetStatusCode calls1 = []"
    and "filter is_postConsumeQuota calls1 = []"
  using prepare_calls[OF assms(1)]
  by (fastforce simp: is_stage filter_empty_conv list_all_iff)+

subsection \<open>The body construction, branch by branch\<close>

lemma raw_buffer_branch:
  assumes prep: "ImageHelper_prepare d w0 = (Inr (request, adaptor), w1, calls1)"
    and npt: "\<not> (PassThroughRequestEnabled w1 \<or> PassThroughBodyEnabled (info w1))"
    and conv: "ConvertImageRequest d adaptor request w1 = (Inr (BytesBuffer buf), w2)"
    and run: "ImageHelper d w0 = (out, w', calls)"
  shows "filter is_DoRequest calls = [Call_DoRequest buf] \<and>
         list_all (\<lambda>c. \<not> is_ApplyParamOverride c \<and> \<not> is_Marshal c) calls"
proof -
  have body: "ImageHelper_body d adaptor request w1 = (Inr buf, w2, [Call_ConvertImageRequest request])"
    using npt conv by (simp add: ImageHelper_body_def)
  from run_body_done[OF run prep body] obtain more where
    m: "calls = calls1 @ [Call_ConvertImageRequest request] @ Call_DoRequest buf # more"
       "list_all (\<lambda>c. 10 \<le> stage c) more"
    by auto
  have c1: "list_all (\<lambda>c. stage c \<le> 4) calls1"
    using prepare_calls[OF prep] by simp
  have "filter is_DoRequest calls1 = []" "filter is_DoRequest more = []"
    using c1 m(2) by (auto simp: is_stage filter_empty_conv list_all_iff)
  with m c1 show ?thesis
    by (auto simp: is_stage list_all_iff)
qed

lemma serialization_branch:
  assumes prep: "ImageHelper_prepare d w0 = (Inr (request, adaptor), w1, calls1)"
    and npt: "\<not> (PassThroughRequestEnabled w1 \<or> PassThroughBodyEnabled (info w1))"
    and conv: "ConvertImageRequest d adaptor request w1 = (Inr (Payload payload), w2)"
    and ser: "Marshal d payload = Inr jsonData"
    and ov: "length (ParamOverride (info w2)) > 0"
    and run: "ImageHelper d w0 = (out, w', calls)"
  shows "(\<exists>more. calls = calls1 @ [Call_ConvertImageRequest request, Call_Marshal payload,
                      Call_ApplyParamOverride jsonData (ParamOverride (info w2))] @ more
            \<and> list_all (\<lambda>c. \<not> is_ApplyParamOverride c) (calls1 @ more)) \<and>
         (case ApplyParamOverride d jsonData (ParamOverride (info w2)) of
            Inl err \<Rightarrow>
              out = Return (Some (NewError err ErrorCodeChannelParamOverrideInvalid [ErrOptionWithSkipRetry]))
              \<and> filter is_DoRequest calls = []
          | Inr patched \<Rightarrow> filter is_DoRequest calls = [Call_DoRequest patched])"
proof -
  let ?cs = "[Call_ConvertImageRequest request, Call_Marshal payload,
              Call_ApplyParamOverride jsonData (ParamOverride (info w2))]"
  have c1: "list_all (\<lambda>c. stage c \<le> 4) calls1"
    using prepare_calls[OF prep] by simp
  then have f1: "filter is_DoRequest calls1 = []" "list_all (\<lambda>c. \<not> is_ApplyParamOverride c) calls1"
    by (auto simp: is_stage filter_empty_conv list_all_iff)
  show ?thesis
  proof (cases "ApplyParamOverride d jsonData (ParamOverride (info w2))")
    case (Inl err)
    then have body: "ImageHelper_body d adaptor request w1 =
        (Inl (NewError err ErrorCodeChannelParamOverrideInvalid [ErrOptionWithSkipRetry]), w2, ?cs)"
      using npt conv ser ov by (simp add: ImageHelper_body_def)
    from run_body_fails[OF run prep body] Inl f1 show ?thesis by simp
  next
    case (Inr patched)
    then have body: "ImageHelper_body d adaptor request w1 = (Inr patched, w2, ?cs)"
      using npt conv ser ov by (simp add: ImageHelper_body_def)
    from run_body_done[OF run prep body] obtain more where
      m: "calls = calls1 @ ?cs @ Call_DoRequest patched # more" "list_all (\<lambda>c. 10 \<le> stage c) more"
      by auto
    then have "filter is_DoRequest more = []" "list_all (\<lambda>c. \<not> is_ApplyParamOverride c) more"
      by (auto simp: is_stage filter_empty_conv list_all_iff)
    with m Inr f1 show ?thesis by (simp add: is_stage)
  qed
qed

lemma body_override:
  assumes "ImageHelper_body d a rq w = (r, w1, cs)"
    and "Call_ApplyParamOverride j ov \<in> set cs"
  shows "\<exists>payload. cs = [Call_ConvertImageRequest rq, Call_Marshal payload, Call_ApplyParamOverride j ov]
           \<and> Marshal d payload = Inr j"
  using assms unfolding ImageHelper_body_def Let_def
  by (auto split: sum.splits prod.splits Converted.splits if_splits)

lemma not_override_by_stage:
  assumes "list_all (\<lambda>c. stage c \<noteq> 8) cs"
  shows "Call_ApplyParamOverride j ov \<notin> set cs"
  using assms by (auto simp: list_all_iff)

lemma override_follows_marshal:
  assumes run: "ImageHelper d w0 = (out, w', calls)"
    and ov: "Call_ApplyParamOverride j ov \<in> set calls"
  shows "\<exists>payload pre post. calls = pre @ [Call_Marshal payload, Call_ApplyParamOverride j ov] @ post
           \<and> Marshal d payload = Inr j"
  using run
proof (cases rule: ImageHelper_cases)
  case (prepare_fails e)
  from prepare_calls[OF prepare_fails(1)] have "Call_ApplyParamOverride j ov \<notin> set calls"
    by (intro not_override_by_stage) (fastforce simp: list_all_iff)
  with ov show ?thesis by simp
next
  case (body_fails request adaptor w1 calls1 e calls2)
  from prepare_calls[OF body_fails(1)] have "Call_ApplyParamOverride j ov \<notin> set calls1"
    by (intro not_override_by_stage) (fastforce simp: list_all_iff)
  with ov body_fails(4) have "Call_ApplyParamOverride j ov \<in> set calls2" by simp
  from body_override[OF body_fails(2) this] obtain payload where
    "calls2 = [Call_ConvertImageRequest request, Call_Marshal payload, Call_ApplyParamOverride j ov]"
    "Marshal d payload = Inr j" by blast
  with body_fails(4) have "calls = (calls1 @ [Call_ConvertImageRequest request])
      @ [Call_Marshal payload, Call_ApplyParamOverride j ov] @ [] \<and> Marshal d payload = Inr j"
    by simp
  then show ?thesis by blast
next
  case (request_ends request adaptor w1 calls1 requestBody w2 calls2 calls3)
  from prepare_calls[OF request_ends(1)] have "Call_ApplyParamOverride j ov \<notin> set calls1"
    by (intro not_override_by_stage) (fastforce simp: list_all_iff)
  moreover from request_calls[OF request_ends(3)] have "Call_ApplyParamOverride j ov \<notin> set calls3"
    by (intro not_override_by_stage) (fastforce simp: list_all_iff)
  ultimately have "Call_ApplyParamOverride j ov \<in> set calls2"
    using ov request_ends(4) by simp
  from body_override[OF request_ends(2) this] obtain payload where
    "calls2 = [Call_ConvertImageRequest request, Call_Marshal payload, Call_ApplyParamOverride j ov]"
    "Marshal d payload = Inr j" by blast
  with request_ends(4) have "calls = (calls1 @ [Call_ConvertImageRequest request])
      @ [Call_Marshal payload, Call_ApplyParamOverride j ov] @ calls3 \<and> Marshal d payload = Inr j"
    by simp
  then show ?thesis by blast
next
  case (response request adaptor w1 calls1 requestBody w2 calls2 httpResp statusCodeMappingStr w3 calls3 calls4)
  from prepare_calls[OF response(1)] have "Call_ApplyParamOverride j ov \<notin> set calls1"
    by (intro not_override_by_stage) (fastforce simp: list_all_iff)
  moreover from request_calls[OF response(3)] have "Call_ApplyParamOverride j ov \<notin> set calls3"
    by (intro not_override_by_stage) (fastforce simp: list_all_iff)
  moreover from response_calls[OF response(4)] have "Call_ApplyParamOverride j ov \<notin> set calls4"
    by (intro not_override_by_stage) (fastforce simp: list_all_iff)
  ultimately have "Call_ApplyParamOverride j ov \<in> set calls2"
    using ov response(5) by simp
  from body_override[OF response(2) this] obtain payload where
    "calls2 = [Call_ConvertImageRequest request, Call_Marshal payload, Call_ApplyParamOverride j ov]"
    "Marshal d payload = Inr j" by blast
  with response(5) have "calls = (calls1 @ [Call_ConvertImageRequest request])
      @ [Call_Marshal payload, Call_ApplyParamOverride j ov] @ (calls3 @ calls4) \<and> Marshal d payload = Inr j"
    by simp
  then show ?thesis by blast
qed

subsection \<open>Where the status remapping is applied\<close>

lemma remap_local_prepare:
  assumes run: "ImageHelper d w0 = (out, w', calls)"
    and prep: "ImageHelper_prepare d w0 = (Inl e, w1, calls1)"
  shows "out = Return (Some e) \<and> filter is_ResetStatusCode calls = []"
  using run_prepare_fails[OF run prep] prepare_only_calls(2)[OF prep] by simp

lemma remap_local_body:
  assumes run: "ImageHelper d w0 = (out, w', calls)"
    and prep: "ImageHelper_prepare d w0 = (Inr (request, adaptor), w1, calls1)"
    and body: "ImageHelper_body d adaptor request w1 = (Inl e, w2, calls2)"
  shows "out = Return (Some e) \<and> filter is_ResetStatusCode calls = []"
  using run_body_fails[OF run prep body] early_calls(2)[OF prep body] by simp

lemma remap_local_transport:
  assumes run: "ImageHelper d w0 = (out, w', calls)"
    and prep: "ImageHelper_prepare d w0 = (Inr (request, adaptor), w1, calls1)"
    and body: "ImageHelper_body d adaptor request w1 = (Inr requestBody, w2, calls2)"
    and dr: "DoRequest d adaptor requestBody w2 = (Inl err, w3)"
  shows "out = Return (Some (NewOpenAIError err ErrorCodeDoRequestFailed StatusInternalServerError))
         \<and> filter is_ResetStatusCode calls = []"
proof -
  have "ImageHelper_request d adaptor requestBody w2 =
          (Inl (Return (Some (NewOpenAIError err ErrorCodeDoRequestFailed StatusInternalServerError))),
           w3, [Call_DoRequest requestBody])"
    using dr by (simp add: ImageHelper_request_def)
  from run_request_ends[OF run prep body this] early_calls(2)[OF prep body]
  show ?thesis by simp
qed

lemma remap_non_success:
  assumes run: "ImageHelper d w0 = (out, w', calls)"
    and prep: "ImageHelper_prepare d w0 = (Inr (request, adaptor), w1, calls1)"
    and body: "ImageHelper_body d adaptor request w1 = (Inr requestBody, w2, calls2)"
    and dr: "DoRequest d adaptor requestBody w2 = (Inr (RespHttp resp), w3)"
    and st: "StatusCode resp \<noteq> StatusOK"
  shows "out = Return (Some (ResetStatusCode d (RelayErrorHandler d resp) (status_code_mapping w2)))
         \<and> filter is_DoResponse calls = []
         \<and> filter (\<lambda>c. 10 \<le> stage c) calls =
             [Call_RelayErrorHandler resp,
              Call_ResetStatusCode (RelayErrorHandler d resp) (status_code_mapping w2)]
         \<and> w' = w3\<lparr>info := (info w3)\<lparr>IsStream :=
                IsStream (info w3) \<or> prefix ''text/event-stream'' (ContentType resp)\<rparr>\<rparr>"
proof -
  have "ImageHelper_request d adaptor requestBody w2 =
          (Inl (Return (Some (ResetStatusCode d (RelayErrorHandler d resp) (status_code_mapping w2)))),
           w3\<lparr>info := (info w3)\<lparr>IsStream :=
                IsStream (info w3) \<or> prefix ''text/event-stream'' (ContentType resp)\<rparr>\<rparr>,
           [Call_DoRequest requestBody, Call_RelayErrorHandler resp,
            Call_ResetStatusCode (RelayErrorHandler d resp) (status_code_mapping w2)])"
    using dr st by (simp add: ImageHelper_request_def Let_def)
  from run_request_ends[OF run prep body this] early_calls(1,3)[OF prep body, of requestBody]
  show ?thesis by simp
qed

lemma remap_reconciliation:
  assumes run: "ImageHelper d w0 = (out, w', calls)"
    and prep: "ImageHelper_prepare d w0 = (Inr (request, adaptor), w1, calls1)"
    and body: "ImageHelper_body d adaptor request w1 = (Inr requestBody, w2, calls2)"
    and req: "ImageHelper_request d adaptor requestBody w2 = (Inr (httpResp, s), w3, calls3)"
    and dr: "DoResponse d adaptor httpResp w3 = (Inl e, w4)"
  shows "out = Return (Some (ResetStatusCode d e (status_code_mapping w2)))
         \<and> filter (\<lambda>c. 10 \<le> stage c) calls =
             [Call_DoResponse httpResp (info w3), Call_ResetStatusCode e (status_code_mapping w2)]"
proof -
  from request_continues[OF req] have c3: "calls3 = [Call_DoRequest requestBody]"
    and s: "s = status_code_mapping w2" by simp_all
  have "ImageHelper_response d adaptor request httpResp s w3 =
          (Return (Some (ResetStatusCode d e s)), w4,
           [Call_DoResponse httpResp (info w3), Call_ResetStatusCode e s])"
    using dr by (simp add: ImageHelper_response_def)
  with run_response[OF run prep body req] c3 s early_calls(1)[OF prep body, of requestBody]
  show ?thesis by simp
qed

subsection \<open>Success and failure of a run\<close>

lemma response_success:
  assumes "ImageHelper_response d adaptor request httpResp s w3 = (Return None, w', calls4)"
  shows "\<exists>usage w4. DoResponse d adaptor httpResp w3 = (Inr (UsagePtr usage), w4) \<and>
           calls4 = [Call_DoResponse httpResp (info w3),
                     Call_postConsumeQuota (usageFallback_spec usage (N request))
                       (fst (logContentOf (Sprintf_f1 d) request w4))]"
  using assms unfolding ImageHelper_response_def Let_def
  by (auto simp: usageFallback_spec_def split: sum.splits prod.splits Usage_any.splits)

lemma response_failure:
  assumes "ImageHelper_response d adaptor request httpResp s w3 = (out, w', calls4)"
    and "out \<noteq> Return None"
  shows "filter is_postConsumeQuota calls4 = []"
  using assms unfolding ImageHelper_response_def Let_def
  by (auto split: sum.splits prod.splits Usage_any.splits)

lemma request_never_succeeds:
  assumes "ImageHelper_request d adaptor requestBody w2 = (Inl out, w3, calls3)"
  shows "out \<noteq> Return None \<and> filter is_postConsumeQuota calls3 = []"
  using assms unfolding ImageHelper_request_def Let_def
  by (auto split: sum.splits prod.splits Resp_any.splits if_splits)

lemma run_success:
  assumes run: "ImageHelper d w0 = (Return None, w', calls)"
  shows "\<exists>request adaptor w1 calls1 httpResp w3 usage w4 pre.
           ImageHelper_prepare d w0 = (Inr (request, adaptor), w1, calls1) \<and>
           DoResponse d adaptor httpResp w3 = (Inr (UsagePtr usage), w4) \<and>
           calls = pre @ [Call_DoResponse httpResp (info w3),
                          Call_postConsumeQuota (usageFallback_spec usage (N request))
                            (fst (logContentOf (Sprintf_f1 d) request w4))] \<and>
           filter is_postConsumeQuota pre = []"
  using run
proof (cases rule: ImageHelper_cases)
  case (prepare_fails e)
  then show ?thesis by simp
next
  case (body_fails request adaptor w1 calls1 e calls2)
  then show ?thesis by simp
next
  case (request_ends request adaptor w1 calls1 requestBody w2 calls2 calls3)
  from request_never_succeeds[OF request_ends(3)] show ?thesis by simp
next
  case (response request adaptor w1 calls1 requestBody w2 calls2 httpResp statusCodeMappingStr w3 calls3 calls4)
  from response_success[OF response(4)] obtain usage w4 where
    u: "DoResponse d adaptor httpResp w3 = (Inr (UsagePtr usage), w4)"
       "calls4 = [Call_DoResponse httpResp (info w3),
                  Call_postConsumeQuota (usageFallback_spec usage (N request))
                    (fst (logContentOf (Sprintf_f1 d) request w4))]"
    by blast
  from request_continues[OF response(3)] have c3: "calls3 = [Call_DoRequest requestBody]" by simp
  have "filter is_postConsumeQuota (calls1 @ calls2 @ calls3) = []"
    using early_calls(4)[OF response(1,2)] c3 by simp
  moreover have "calls = (calls1 @ calls2 @ calls3) @ calls4"
    using response(5) by simp
  ultimately show ?thesis using u response(1) by blast
qed

lemma run_failure:
  assumes run: "ImageHelper d w0 = (out, w', calls)" and "out \<noteq> Return None"
  shows "filter is_postConsumeQuota calls = []"
  using run
proof (cases rule: ImageHelper_cases)
  case (prepare_fails e)
  with prepare_only_calls(3) show ?thesis by blast
next
  case (body_fails request adaptor w1 calls1 e calls2)
  with early_calls(4)[OF body_fails(1,2)] show ?thesis by simp
next
  case (request_ends request adaptor w1 calls1 requestBody w2 calls2 calls3)
  with early_calls(4)[OF request_ends(1,2)] request_never_succeeds[OF request_ends(3)]
  show ?thesis by simp
next
  case (response request adaptor w1 calls1 requestBody w2 calls2 httpResp statusCodeMappingStr w3 calls3 calls4)
  from request_continues[OF response(3)] have c3: "calls3 = [Call_DoRequest requestBody]" by simp
  with response early_calls(4)[OF response(1,2)] response_failure[OF response(4) assms(2)]
  show ?thesis by simp
qed

lemma int_of_uint_value:
  fixes u :: "64 word"
  assumes "uint u < 2 ^ 63"
  shows "sint (int_of_uint u) = uint u"
proof -
  have "- (2 ^ 63) \<le> uint u"
    by (rule order_trans[OF _ uint_ge_0]) simp
  with assms show ?thesis
    unfolding int_of_uint_def by (simp add: sint_uint signed_take_bit_int_eq_self)
qed

subsection \<open>The quota consumer and the final state\<close>

text \<open>
The consumer is applied once, by the last part of a run that succeeds: the first three
parts and a last part that fails do not depend on it.
\<close>

lemma prepare_ignores_consumer:
  "ImageHelper_prepare (d\<lparr>postConsumeQuota := q\<rparr>) w = ImageHelper_prepare d w"
  by (simp add: ImageHelper_prepare_def Let_def
      cong: Request_any.case_cong sum.case_cong prod.case_cong option.case_cong)

lemma body_ignores_consumer:
  "ImageHelper_body (d\<lparr>postConsumeQuota := q\<rparr>) a rq w = ImageHelper_body d a rq w"
  by (simp add: ImageHelper_body_def
      cong: if_cong sum.case_cong prod.case_cong Converted.case_cong)

lemma request_ignores_consumer:
  "ImageHelper_request (d\<lparr>postConsumeQuota := q\<rparr>) a b w = ImageHelper_request d a b w"
  by (simp add: ImageHelper_request_def Let_def
      cong: if_cong sum.case_cong prod.case_cong Resp_any.case_cong)

lemma response_applies_consumer:
  assumes "DoResponse d a h w = (Inr (UsagePtr usage), w4)"
  shows "ImageHelper_response d a rq h s w =
     (Return None,
      postConsumeQuota d (usageFallback_spec usage (N rq))
        (fst (logContentOf (Sprintf_f1 d) rq w4)) (snd (logContentOf (Sprintf_f1 d) rq w4)),
      [Call_DoResponse h (info w),
       Call_postConsumeQuota (usageFallback_spec usage (N rq)) (fst (logContentOf (Sprintf_f1 d) rq w4))])"
  using assms
  by (cases usage) (simp add: ImageHelper_response_def Let_def usageFallback_spec_def case_prod_beta)

lemma response_success_usage:
  assumes "ImageHelper_response d a rq h s w = (Return None, w', cs)"
  shows "\<exists>usage w4. DoResponse d a h w = (Inr (UsagePtr usage), w4)"
  using assms unfolding ImageHelper_response_def Let_def
  by (auto split: sum.splits prod.splits Usage_any.splits)

lemma response_failure_ignores_consumer:
  assumes "ImageHelper_response d a rq h s w = (out, w', cs)" and "out \<noteq> Return None"
  shows "ImageHelper_response (d\<lparr>postConsumeQuota := q\<rparr>) a rq h s w = (out, w', cs)"
  using assms unfolding ImageHelper_response_def Let_def
  by (auto split: sum.splits prod.splits Usage_any.splits)

lemma run_success_chain:
  assumes run: "ImageHelper d w0 = (Return None, w', calls)"
  shows "\<exists>request adaptor w1 calls1 requestBody w2 calls2 httpResp s w3 calls3 usage w4.
     ImageHelper_prepare d w0 = (Inr (request, adaptor), w1, calls1) \<and>
     ImageHelper_body d adaptor request w1 = (Inr requestBody, w2, calls2) \<and>
     ImageHelper_request d adaptor requestBody w2 = (Inr (httpResp, s), w3, calls3) \<and>
     DoResponse d adaptor httpResp w3 = (Inr (UsagePtr usage), w4) \<and>
     calls = calls1 @ calls2 @ calls3 @
       [Call_DoResponse httpResp (info w3),
        Call_postConsumeQuota (usageFallback_spec usage (N request))
          (fst (logContentOf (Sprintf_f1 d) request w4))] \<and>
     w' = postConsumeQuota d (usageFallback_spec usage (N request))
            (fst (logContentOf (Sprintf_f1 d) request w4))
            (snd (logContentOf (Sprintf_f1 d) request w4))"
  using run
proof (cases rule: ImageHelper_cases)
  case (prepare_fails e)
  then show ?thesis by simp
next
  case (body_fails request adaptor w1 calls1 e calls2)
  then show ?thesis by simp
next
  case (request_ends request adaptor w1 calls1 requestBody w2 calls2 calls3)
  from request_never_succeeds[OF request_ends(3)] show ?thesis by simp
next
  case (response request adaptor w1 calls1 requestBody w2 calls2 httpResp statusCodeMappingStr w3 calls3 calls4)
  from response_success_usage[OF response(4)] obtain usage w4 where
    u: "DoResponse d adaptor httpResp w3 = (Inr (UsagePtr usage), w4)" by blast
  from response_applies_consumer[OF u, of request statusCodeMappingStr] response(4)
  have "w' = postConsumeQuota d (usageFallback_spec usage (N request))
            (fst (logContentOf (Sprintf_f1 d) request w4))
            (snd (logContentOf (Sprintf_f1 d) request w4))"
    and "calls4 = [Call_DoResponse httpResp (info w3),
        Call_postConsumeQuota (usageFallback_spec usage (N request))
          (fst (logContentOf (Sprintf_f1 d) request w4))]"
    by simp_all
  with response u show ?thesis by blast
qed

lemma run_with_other_consumer:
  assumes "ImageHelper_prepare d w0 = (Inr (request, adaptor), w1, calls1)"
    and "ImageHelper_body d adaptor request w1 = (Inr requestBody, w2, calls2)"
    and "ImageHelper_request d adaptor requestBody w2 = (Inr (httpResp, s), w3, calls3)"
    and "DoResponse d adaptor httpResp w3 = (Inr (UsagePtr usage), w4)"
  shows "ImageHelper (d\<lparr>postConsumeQuota := q\<rparr>) w0 =
     (Return None,
      q (usageFallback_spec usage (N request))
        (fst (logContentOf (Sprintf_f1 d) request w4)) (snd (logContentOf (Sprintf_f1 d) request w4)),
      calls1 @ calls2 @ calls3 @
       [Call_DoResponse httpResp (info w3),
        Call_postConsumeQuota (usageFallback_spec usage (N request))
          (fst (logContentOf (Sprintf_f1 d) request w4))])"
proof -
  have "DoResponse (d\<lparr>postConsumeQuota := q\<rparr>) adaptor httpResp w3 = (Inr (UsagePtr usage), w4)"
    using assms(4) by simp
  from response_applies_consumer[OF this, of request s] assms(1-3)
  show ?thesis
    by (simp add: ImageHelper_def prepare_ignores_consumer body_ignores_consumer
        request_ignores_consumer)
qed

lemma failed_run_ignores_consumer:
  assumes run: "ImageHelper d w0 = (out, w', calls)" and f: "out \<noteq> Return None"
  shows "ImageHelper (d\<lparr>postConsumeQuota := q\<rparr>) w0 = (out, w', calls)"
  using run
proof (cases rule: ImageHelper_cases)
  case (prepare_fails e)
  then show ?thesis
    by (simp add: ImageHelper_def prepare_ignores_consumer)
next
  case (body_fails request adaptor w1 calls1 e calls2)
  then show ?thesis
    by (simp add: ImageHelper_def prepare_ignores_consumer body_ignores_consumer)
next
  case (request_ends request adaptor w1 calls1 requestBody w2 calls2 calls3)
  then show ?thesis
    by (simp add: ImageHelper_def prepare_ignores_consumer body_ignores_consumer
        request_ignores_consumer)
next
  case (response request adaptor w1 calls1 requestBody w2 calls2 httpResp statusCodeMappingStr w3 calls3 calls4)
  from response_failure_ignores_consumer[OF response(4) f, of q] response(1,2,3,5)
  show ?thesis
    by (simp add: ImageHelper_def prepare_ignores_consumer body_ignores_consumer
        request_ignores_consumer)
qed

subsection \<open>Every path of a run\<close>

text \<open>
The run, path by path: which collaborator is applied to which state, and how the run
ends there.
\<close>

lemma response_unfolded:
  "ImageHelper_response d a rq h s w =
     (case DoResponse d a h w of
        (Inl e, w6) \<Rightarrow>
          (Return (Some (ResetStatusCode d e s)), w6,
           [Call_DoResponse h (info w), Call_ResetStatusCode e s])
      | (Inr UsageOther, w6) \<Rightarrow> (Panic, w6, [Call_DoResponse h (info w)])
      | (Inr (UsagePtr usage), w6) \<Rightarrow>
          (Return None,
           postConsumeQuota d (usageFallback_spec usage (N rq))
             (fst (logContentOf (Sprintf_f1 d) rq w6)) (snd (logContentOf (Sprintf_f1 d) rq w6)),
           [Call_DoResponse h (info w),
            Call_postConsumeQuota (usageFallback_spec usage (N rq))
              (fst (logContentOf (Sprintf_f1 d) rq w6))]))"
proof (cases "DoResponse d a h w")
  case (Pair r w6)
  show ?thesis
  proof (cases r)
    case (Inl e)
    with Pair show ?thesis by (simp add: ImageHelper_response_def)
  next
    case (Inr u)
    show ?thesis
    proof (cases u)
      case (UsagePtr usage)
      with Pair Inr have "DoResponse d a h w = (Inr (UsagePtr usage), w6)" by simp
      from response_applies_consumer[OF this, of rq s] Pair Inr UsagePtr
      show ?thesis by simp
    next
      case UsageOther
      with Pair Inr show ?thesis by (simp add: ImageHelper_response_def)
    qed
  qed
qed

lemma run_paths:
  assumes run: "ImageHelper d w0 = (out, w', calls)"
  shows "(let reconcile = (\<lambda>adaptor request httpResp mapping w5 earlier.
          case DoResponse d adaptor httpResp w5 of
            (Inl e, w6) \<Rightarrow>
              out = Return (Some (ResetStatusCode d e mapping)) \<and> w' = w6
              \<and> calls = earlier @ [Call_DoResponse httpResp (info w5), Call_ResetStatusCode e mapping]
          | (Inr UsageOther, w6) \<Rightarrow>
              out = Panic \<and> w' = w6 \<and> calls = earlier @ [Call_DoResponse httpResp (info w5)]
          | (Inr (UsagePtr usage), w6) \<Rightarrow>
              out = Return None
              \<and> w' = postConsumeQuota d (usageFallback_spec usage (N request))
                         (fst (logContentOf (Sprintf_f1 d) request w6))
                         (snd (logContentOf (Sprintf_f1 d) request w6))
              \<and> calls = earlier @
                    [Call_DoResponse httpResp (info w5),
                     Call_postConsumeQuota (usageFallback_spec usage (N request))
                       (fst (logContentOf (Sprintf_f1 d) request w6))])
    in
    (case Request (info (InitChannelMeta d w0)) of
      OtherRequest typeName \<Rightarrow>
        out = Return (Some (NewErrorWithStatusCode
                (''invalid request type, expected dto.ImageRequest, got '' @ typeName)
                ErrorCodeInvalidRequest StatusBadRequest [ErrOptionWithSkipRetry]))
        \<and> w' = InitChannelMeta d w0
        \<and> calls = [Call_InitChannelMeta]
    | ImageRequestPtr imageReq \<Rightarrow>
       (case DeepCopy d imageReq of
          Inl err \<Rightarrow>
            out = Return (Some (NewError (''failed to copy request to ImageRequest: '' @ err)
                                  ErrorCodeInvalidRequest [ErrOptionWithSkipRetry]))
            \<and> w' = InitChannelMeta d w0
            \<and> calls = [Call_InitChannelMeta, Call_DeepCopy imageReq]
        | Inr request0 \<Rightarrow>
           (case ModelMappedHelper d request0 (InitChannelMeta d w0) of
              ((Some err, request), w2) \<Rightarrow>
                out = Return (Some (NewError err ErrorCodeChannelModelMappedError [ErrOptionWithSkipRetry]))
                \<and> w' = w2
                \<and> calls = [Call_InitChannelMeta, Call_DeepCopy imageReq, Call_ModelMappedHelper request0]
            | ((None, request), w2) \<Rightarrow>
               (case GetAdaptor d (ApiType (info w2)) of
                  None \<Rightarrow>
                    out = Return (Some (NewError (''invalid api type: '' @ show_int (ApiType (info w2)))
                                          ErrorCodeInvalidApiType [ErrOptionWithSkipRetry]))
                    \<and> w' = w2
                    \<and> calls = [Call_InitChannelMeta, Call_DeepCopy imageReq,
                                Call_ModelMappedHelper request0, Call_GetAdaptor (ApiType (info w2))]
                | Some adaptor \<Rightarrow>
                   (case ImageHelper_body d adaptor request (Adaptor_Init d adaptor w2) of
                      (Inl e, w3, calls2) \<Rightarrow>
                        out = Return (Some e) \<and> w' = w3
                        \<and> calls = [Call_InitChannelMeta, Call_DeepCopy imageReq,
                                    Call_ModelMappedHelper request0,
                                    Call_GetAdaptor (ApiType (info w2)), Call_Init] @ calls2
                    | (Inr requestBody, w3, calls2) \<Rightarrow>
                       (case DoRequest d adaptor requestBody w3 of
                          (Inl err, w4) \<Rightarrow>
                            out = Return (Some (NewOpenAIError err ErrorCodeDoRequestFailed
                                                  StatusInternalServerError))
                            \<and> w' = w4
                            \<and> calls = [Call_InitChannelMeta, Call_DeepCopy imageReq,
                                        Call_ModelMappedHelper request0,
                                        Call_GetAdaptor (ApiType (info w2)), Call_Init]
                                       @ calls2 @ [Call_DoRequest requestBody]
                        | (Inr RespOther, w4) \<Rightarrow>
                            out = Panic \<and> w' = w4
                            \<and> calls = [Call_InitChannelMeta, Call_DeepCopy imageReq,
                                        Call_ModelMappedHelper request0,
                                        Call_GetAdaptor (ApiType (info w2)), Call_Init]
                                       @ calls2 @ [Call_DoRequest requestBody]
                        | (Inr RespNil, w4) \<Rightarrow>
                            reconcile adaptor request None (status_code_mapping w3) w4
                              ([Call_InitChannelMeta, Call_DeepCopy imageReq,
                                Call_ModelMappedHelper request0,
                                Call_GetAdaptor (ApiType (info w2)), Call_Init]
                               @ calls2 @ [Call_DoRequest requestBody])
                        | (Inr (RespHttp httpResp), w4) \<Rightarrow>
                            (if StatusCode httpResp \<noteq> StatusOK then
                               out = Return (Some (ResetStatusCode d (RelayErrorHandler d httpResp)
                                                     (status_code_mapping w3)))
                               \<and> w' = w4\<lparr>info := (info w4)\<lparr>IsStream := IsStream (info w4)
                                           \<or> prefix ''text/event-stream'' (ContentType httpResp)\<rparr>\<rparr>
                               \<and> calls = [Call_InitChannelMeta, Call_DeepCopy imageReq,
                                           Call_ModelMappedHelper request0,
                                           Call_GetAdaptor (ApiType (info w2)), Call_Init]
                                          @ calls2 @
                                          [Call_DoRequest requestBody, Call_RelayErrorHandler httpResp,
                                           Call_ResetStatusCode (RelayErrorHandler d httpResp)
                                             (status_code_mapping w3)]
                             else
                               reconcile adaptor request (Some httpResp) (status_code_mapping w3)
                                 (w4\<lparr>info := (info w4)\<lparr>IsStream := IsStream (info w4)
                                      \<or> prefix ''text/event-stream'' (ContentType httpResp)\<rparr>\<rparr>)
                                 ([Call_InitChannelMeta, Call_DeepCopy imageReq,
                                   Call_ModelMappedHelper request0,
                                   Call_GetAdaptor (ApiType (info w2)), Call_Init]
                                  @ calls2 @ [Call_DoRequest requestBody])))))))))"
  using run
  unfolding ImageHelper_def ImageHelper_prepare_def ImageHelper_request_def response_unfolded Let_def
  by (auto split: Request_any.splits sum.splits prod.splits option.splits Resp_any.splits
        Usage_any.splits if_splits)

subsection \<open>The image fields of a form\<close>

text \<open>
The loops as sums, the three branches of the choice, and the whole against the
specification's words. The last lemma shows that the order in which Go ranges over the
map does not matter: two lists with the same entries give the same count and size.
\<close>

lemma sumSizes_sum_list: "sumSizes files acc = acc + sum_list (map FileSize files)"
  by (induction files arbitrary: acc) (simp_all add: add.assoc)

lemma rangeArrayImages_snd:
  "snd (rangeArrayImages mf (found, acc)) =
     acc @ concat (map snd (filter (\<lambda>(fieldName, files). prefix ''image['' fieldName) mf))"
  by (induction mf arbitrary: found acc) auto

lemma early_return_merge:
  "(if \<not> a \<and> b then x else if b then x else y) = (if b then x else y)"
  by simp

lemma countAndSizeOfForm_image:
  assumes "map_of mf ''image'' = Some (part # parts)"
  shows "countAndSizeOfForm sprintf_f1 mf =
           (length (part # parts), formatSizeInfo sprintf_f1 (sum_list (map FileSize (part # parts))))"
  using assms by (simp add: countAndSizeOfForm_def File_index_def sumSizes_sum_list)

lemma countAndSizeOfForm_image_array:
  assumes "map_of mf ''image'' = None \<or> map_of mf ''image'' = Some []"
    and "map_of mf ''image[]'' = Some (part # parts)"
  shows "countAndSizeOfForm sprintf_f1 mf =
           (length (part # parts), formatSizeInfo sprintf_f1 (sum_list (map FileSize (part # parts))))"
  using assms by (auto simp: countAndSizeOfForm_def File_index_def sumSizes_sum_list)

lemma countAndSizeOfForm_prefixed:
  assumes "map_of mf ''image'' = None \<or> map_of mf ''image'' = Some []"
    and "map_of mf ''image[]'' = None \<or> map_of mf ''image[]'' = Some []"
  shows "countAndSizeOfForm sprintf_f1 mf =
           (let merged = concat (map snd (filter (\<lambda>(fieldName, files). prefix ''image['' fieldName) mf))
            in if merged = [] then (0, '''')
               else (length merged, formatSizeInfo sprintf_f1 (sum_list (map FileSize merged))))"
proof -
  have i1: "File_index mf ''image'' = ([], False) \<or> File_index mf ''image'' = ([], True)"
    using assms(1) by (auto simp: File_index_def)
  have i2: "File_index mf ''image[]'' = ([], False) \<or> File_index mf ''image[]'' = ([], True)"
    using assms(2) by (auto simp: File_index_def)
  obtain found merged where r: "rangeArrayImages mf (False, []) = (found, merged)"
    by fastforce
  from rangeArrayImages_snd[of mf False "[]"] r
  have m: "merged = concat (map snd (filter (\<lambda>(fieldName, files). prefix ''image['' fieldName) mf))"
    by simp
  have "countAndSizeOfForm sprintf_f1 mf =
          (if merged = [] then (0, '''')
           else (length merged, formatSizeInfo sprintf_f1 (sumSizes merged 0)))"
    using i1 i2 r unfolding countAndSizeOfForm_def
    by (elim disjE) (simp_all add: early_return_merge)
  then show ?thesis
    by (simp only: Let_def m[symmetric] sumSizes_sum_list add.left_neutral)
qed

lemma countAndSizeOfForm_spec:
  "countAndSizeOfForm sprintf_f1 mf =
     (let parts = imageParts_spec mf in
      if parts = [] then (0, '''')
      else (length parts, formatSizeInfo sprintf_f1 (sum_list (map FileSize parts))))"
proof -
  consider (image) part parts where "map_of mf ''image'' = Some (part # parts)"
    | (image_array) part parts where "map_of mf ''image'' = None \<or> map_of mf ''image'' = Some []"
        "map_of mf ''image[]'' = Some (part # parts)"
    | (prefixed) "map_of mf ''image'' = None \<or> map_of mf ''image'' = Some []"
        "map_of mf ''image[]'' = None \<or> map_of mf ''image[]'' = Some []"
    by (cases "map_of mf ''image''"; cases "map_of mf ''image[]''";
        cases "the (map_of mf ''image'')"; cases "the (map_of mf ''image[]'')") auto
  then show ?thesis
  proof cases
    case image
    then show ?thesis
      by (simp add: countAndSizeOfForm_image imageParts_spec_def)
  next
    case image_array
    then show ?thesis
      by (auto simp: countAndSizeOfForm_image_array imageParts_spec_def)
  next
    case prefixed
    then show ?thesis
      by (auto simp: countAndSizeOfForm_prefixed imageParts_spec_def Let_def)
  qed
qed

lemma map_of_order_irrelevant:
  assumes "distinct (map fst mf)" "distinct (map fst mf')" "set mf = set mf'"
  shows "map_of mf = map_of mf'"
  using assms by (simp add: map_of_inject_set)

lemma merged_count_order_irrelevant:
  assumes "distinct (map fst mf)" "distinct (map fst mf')" "set mf = set mf'"
  shows "length (concat (map snd (filter P mf))) = length (concat (map snd (filter P mf')))"
    and "sum_list (map FileSize (concat (map snd (filter P mf))))
         = sum_list (map FileSize (concat (map snd (filter P mf'))))"
proof -
  have d: "distinct mf" "distinct mf'"
    using assms(1,2) by (simp_all add: distinct_map)
  have "length (concat (map snd (filter P mf))) = (\<Sum>e \<in> set (filter P mf). length (snd e))"
    using d(1) by (simp add: length_concat sum_list_distinct_conv_sum_set comp_def)
  moreover have "length (concat (map snd (filter P mf'))) = (\<Sum>e \<in> set (filter P mf'). length (snd e))"
    using d(2) by (simp add: length_concat sum_list_distinct_conv_sum_set comp_def)
  ultimately show "length (concat (map snd (filter P mf))) = length (concat (map snd (filter P mf')))"
    using assms(3) by simp
  have s: "\<And>xs. sum_list (map FileSize (concat (map snd xs)))
             = sum_list (map (\<lambda>e. sum_list (map FileSize (snd e))) xs)"
    by (induct_tac xs) simp_all
  have "sum_list (map FileSize (concat (map snd (filter P mf))))
        = (\<Sum>e \<in> set (filter P mf). sum_list (map FileSize (snd e)))"
    using d(1) by (simp add: s sum_list_distinct_conv_sum_set)
  moreover have "sum_list (map FileSize (concat (map snd (filter P mf'))))
        = (\<Sum>e \<in> set (filter P mf'). sum_list (map FileSize (snd e)))"
    using d(2) by (simp add: s sum_list_distinct_conv_sum_set)
  ultimately show "sum_list (map FileSize (concat (map snd (filter P mf))))
         = sum_list (map FileSize (concat (map snd (filter P mf'))))"
    using assms(3) by simp
qed

lemma countAndSizeOfForm_order_irrelevant:
  assumes "distinct (map fst mf)" "distinct (map fst mf')" "set mf = set mf'"
  shows "countAndSizeOfForm sprintf_f1 mf = countAndSizeOfForm sprintf_f1 mf'"
proof -
  let ?P = "\<lambda>(fieldName, files). prefix ''image['' fieldName"
  have m: "map_of mf = map_of mf'" using assms by (rule map_of_order_irrelevant)
  note c = merged_count_order_irrelevant[OF assms, of "?P"]
  have e: "(concat (map snd (filter ?P mf)) = []) = (concat (map snd (filter ?P mf')) = [])"
    using c(1) by (metis length_0_conv)
  show ?thesis
    unfolding countAndSizeOfForm_spec imageParts_spec_def Let_def m
    using c e by (simp split: option.splits list.splits)
qed

subsection \<open>The concrete runs, evaluated\<close>

lemmas example_defs =
  example_deps_def example_world_def example_request_def passthrough_world_def override_world_def
  bad_gateway_deps_def event_stream_deps_def raw_buffer_deps_def convert_fails_deps_def
  marshal_fails_deps_def unregistered_deps_def

lemmas pipeline_defs =
  ImageHelper_def ImageHelper_prepare_def ImageHelper_body_def ImageHelper_request_def
  ImageHelper_response_def logContentOf_def getImageCountAndSizeInfo_def
  StatusOK_def StatusBadRequest_def StatusInternalServerError_def Let_def

lemma run_triple: "ImageHelper d w = (fst (ImageHelper d w), fst (snd (ImageHelper d w)), snd (snd (ImageHelper d w)))"
  by simp

lemma show_nat_512: "show_nat 512 = ''512''"
  by code_simp

lemma passthrough_prepare:
  "ImageHelper_prepare example_deps passthrough_world =
     (Inr (example_request, 7), passthrough_world,
      [Call_InitChannelMeta, Call_DeepCopy example_request, Call_ModelMappedHelper example_request,
       Call_GetAdaptor 1, Call_Init])"
  by (simp add: example_defs pipeline_defs)

lemma override_prepare_raw_buffer:
  "ImageHelper_prepare raw_buffer_deps override_world =
     (Inr (example_request, 7), override_world,
      [Call_InitChannelMeta, Call_DeepCopy example_request, Call_ModelMappedHelper example_request,
       Call_GetAdaptor 1, Call_Init])"
  by (simp add: example_defs pipeline_defs)

lemma bad_gateway_prepare:
  "ImageHelper_prepare bad_gateway_deps example_world =
     (Inr (example_request, 7), example_world,
      [Call_InitChannelMeta, Call_DeepCopy example_request, Call_ModelMappedHelper example_request,
       Call_GetAdaptor 1, Call_Init])"
  by (simp add: example_defs pipeline_defs)

lemma bad_gateway_body:
  "ImageHelper_body bad_gateway_deps 7 example_request example_world =
     (Inr ''{model:dall-e-3}'', example_world,
      [Call_ConvertImageRequest example_request, Call_Marshal ''dall-e-3''])"
  by (simp add: example_defs pipeline_defs)

lemma event_stream_prepare:
  "ImageHelper_prepare event_stream_deps example_world =
     (Inr (example_request, 7), example_world,
      [Call_InitChannelMeta, Call_DeepCopy example_request, Call_ModelMappedHelper example_request,
       Call_GetAdaptor 1, Call_Init])"
  by (simp add: example_defs pipeline_defs)

lemma event_stream_body:
  "ImageHelper_body event_stream_deps 7 example_request example_world =
     (Inr ''{model:dall-e-3}'', example_world,
      [Call_ConvertImageRequest example_request, Call_Marshal ''dall-e-3''])"
  by (simp add: example_defs pipeline_defs)

lemmas journal_defs =
  journal_deps_def journal_world_def journal_bad_gateway_deps_def journal_no_adaptor_deps_def
  journal_buffer_deps_def journal_override_world_def journal_huge_count_world_def
  huge_count_request_def example_request_def journal_def

lemma journal_run:
  "fst (ImageHelper journal_deps journal_world) = Return None"
  "map applied_stage (World.more (fst (snd (ImageHelper journal_deps journal_world))))
     = [0, 2, 4, 6, 9, 11, 13]"
  "concat (map consumed (World.more (fst (snd (ImageHelper journal_deps journal_world)))))
     = [\<lparr>PromptTokens = 2, CompletionTokens = 7, TotalTokens = 2\<rparr>]"
  by (simp_all add: journal_defs pipeline_defs int_of_uint_def)

lemma journal_failed_run:
  "fst (ImageHelper journal_bad_gateway_deps journal_world)
     = Return (Some (ForeignError ''bad response status code'' 500 False))"
  "concat (map consumed (World.more (fst (snd (ImageHelper journal_bad_gateway_deps journal_world))))) = []"
  "map applied_stage (World.more (fst (snd (ImageHelper journal_bad_gateway_deps journal_world))))
     = [0, 2, 4, 6, 9]"
  by (simp_all add: journal_defs pipeline_defs)

section \<open>The claims\<close>

text \<open>
  Claim C1. Quota consumption is triggered exactly once per successful run, after the
  usage normalization and with the derived log line, and never on a failure path.
  For every run and every behaviour of the collaborators: if \<^verbatim>\<open>ImageHelper\<close> returns nil,
  the run went through all four parts, \<^verbatim>\<open>DoResponse\<close> returned a usage, and the state the
  run ends in is the result of \<^verbatim>\<open>postConsumeQuota\<close>, applied to the normalized usage, the
  log line of the request copy, and the state left by the log line; that call is the
  last of the run and the only one of \<^verbatim>\<open>postConsumeQuota\<close>. The consumer is applied
  nowhere else: with any other consumer \<open>q\<close> in its place the run makes the same calls
  and ends in the state \<open>q\<close> gives at that one application. If the run returns an
  error or panics, it has no call of \<^verbatim>\<open>postConsumeQuota\<close>, and its outcome, final state
  and calls are the same whatever the consumer is: the consumer is not applied.
\<close>

theorem quota_consumed_once_on_success_never_on_failure:
  assumes run: "ImageHelper d w0 = (out, w', calls)"
  shows "(out = Return None \<longrightarrow>
            length (filter is_postConsumeQuota calls) = 1 \<and>
            (\<exists>request adaptor w1 calls1 requestBody w2 calls2 httpResp s w3 calls3 usage w4
                billed logContent w5.
               ImageHelper_prepare d w0 = (Inr (request, adaptor), w1, calls1) \<and>
               ImageHelper_body d adaptor request w1 = (Inr requestBody, w2, calls2) \<and>
               ImageHelper_request d adaptor requestBody w2 = (Inr (httpResp, s), w3, calls3) \<and>
               DoResponse d adaptor httpResp w3 = (Inr (UsagePtr usage), w4) \<and>
               billed = usageFallback_spec usage (N request) \<and>
               logContentOf (Sprintf_f1 d) request w4 = (logContent, w5) \<and>
               calls = calls1 @ calls2 @ calls3 @
                  [Call_DoResponse httpResp (info w3), Call_postConsumeQuota billed logContent] \<and>
               w' = postConsumeQuota d billed logContent w5 \<and>
               (\<forall>q. ImageHelper (d\<lparr>postConsumeQuota := q\<rparr>) w0
                      = (Return None, q billed logContent w5, calls))))
       \<and> (out \<noteq> Return None \<longrightarrow>
            length (filter is_postConsumeQuota calls) = 0 \<and>
            (\<forall>q. ImageHelper (d\<lparr>postConsumeQuota := q\<rparr>) w0 = (out, w', calls)))"
proof (cases "out = Return None")
  case True
  with run have r: "ImageHelper d w0 = (Return None, w', calls)" by simp
  from run_success_chain[OF r] obtain request adaptor w1 calls1 requestBody w2 calls2 httpResp s w3
      calls3 usage w4 where
    c: "ImageHelper_prepare d w0 = (Inr (request, adaptor), w1, calls1)"
       "ImageHelper_body d adaptor request w1 = (Inr requestBody, w2, calls2)"
       "ImageHelper_request d adaptor requestBody w2 = (Inr (httpResp, s), w3, calls3)"
       "DoResponse d adaptor httpResp w3 = (Inr (UsagePtr usage), w4)"
    and cs: "calls = calls1 @ calls2 @ calls3 @
       [Call_DoResponse httpResp (info w3),
        Call_postConsumeQuota (usageFallback_spec usage (N request))
          (fst (logContentOf (Sprintf_f1 d) request w4))]"
    and w: "w' = postConsumeQuota d (usageFallback_spec usage (N request))
            (fst (logContentOf (Sprintf_f1 d) request w4))
            (snd (logContentOf (Sprintf_f1 d) request w4))"
    by blast
  from run_success[OF r] have one: "length (filter is_postConsumeQuota calls) = 1"
    by auto
  have lc: "logContentOf (Sprintf_f1 d) request w4
      = (fst (logContentOf (Sprintf_f1 d) request w4), snd (logContentOf (Sprintf_f1 d) request w4))"
    by simp
  have "\<forall>q. ImageHelper (d\<lparr>postConsumeQuota := q\<rparr>) w0
          = (Return None,
             q (usageFallback_spec usage (N request))
               (fst (logContentOf (Sprintf_f1 d) request w4))
               (snd (logContentOf (Sprintf_f1 d) request w4)), calls)"
    using run_with_other_consumer[OF c] cs by simp
  with c cs w lc one True show ?thesis by blast
next
  case False
  with run_failure[OF run] failed_run_ignores_consumer[OF run] show ?thesis by simp
qed

text \<open>
  Claim C1 at two runs of the deployment that keeps a journal: the run that succeeds
  has journalled one quota consumption, of the normalized usage; the run whose upstream
  answers 502 fails and has journalled none.
\<close>

theorem quota_witness:
  "fst (ImageHelper journal_deps journal_world) = Return None \<and>
   concat (map consumed (World.more (fst (snd (ImageHelper journal_deps journal_world)))))
     = [\<lparr>PromptTokens = 2, CompletionTokens = 7, TotalTokens = 2\<rparr>] \<and>
   length (filter is_postConsumeQuota (snd (snd (ImageHelper journal_deps journal_world)))) = 1 \<and>
   fst (ImageHelper journal_bad_gateway_deps journal_world) \<noteq> Return None \<and>
   concat (map consumed (World.more (fst (snd (ImageHelper journal_bad_gateway_deps journal_world))))) = [] \<and>
   length (filter is_postConsumeQuota (snd (snd (ImageHelper journal_bad_gateway_deps journal_world)))) = 0"
proof -
  from quota_consumed_once_on_success_never_on_failure[OF run_triple, of journal_deps journal_world]
    quota_consumed_once_on_success_never_on_failure[OF run_triple, of journal_bad_gateway_deps journal_world]
    journal_run journal_failed_run
  show ?thesis by simp
qed

text \<open>
  Claim C2 says that a zero token count is replaced by the image count \<^verbatim>\<open>N\<close> of the
  request. The code replaces it by \<^verbatim>\<open>int(request.N)\<close>, and \<^verbatim>\<open>N\<close> is unsigned: for a request
  with \<open>N = 2 ^ 63\<close> the run succeeds and the quota consumer receives prompt and total
  counts whose value as signed integers is \<open>- 2 ^ 63\<close>, not \<^verbatim>\<open>N\<close>.
\<close>

theorem huge_image_count_counterexample:
  "uint (N huge_count_request) = 9223372036854775808 \<and>
   fst (ImageHelper journal_deps journal_huge_count_world) = Return None \<and>
   concat (map consumed (World.more (fst (snd (ImageHelper journal_deps journal_huge_count_world)))))
     = [\<lparr>PromptTokens = 9223372036854775808, CompletionTokens = 7,
          TotalTokens = 9223372036854775808\<rparr>] \<and>
   sint (9223372036854775808 :: 64 word) = - 9223372036854775808"
  by (simp add: journal_defs pipeline_defs int_of_uint_def)

text \<open>
  Claim C2, amended. When \<^verbatim>\<open>DoResponse\<close> returns a usage, the run succeeds and the state
  it ends in is the result of \<^verbatim>\<open>postConsumeQuota\<close> applied to this usage: the prompt-token
  count is \<^verbatim>\<open>int(request.N)\<close> if the adaptor's count is zero and the adaptor's count
  otherwise; the same, independently, for the total-token count; the completion-token
  count is the adaptor's. The conversion \<^verbatim>\<open>int(request.N)\<close> yields the number \<^verbatim>\<open>N\<close> itself
  whenever \<^verbatim>\<open>N\<close> is below \<open>2 ^ 63\<close>.
\<close>

theorem zero_token_counts_fall_back_to_image_count:
  assumes prep: "ImageHelper_prepare d w0 = (Inr (request, adaptor), w1, calls1)"
    and body: "ImageHelper_body d adaptor request w1 = (Inr requestBody, w2, calls2)"
    and req: "ImageHelper_request d adaptor requestBody w2 = (Inr (httpResp, s), w3, calls3)"
    and resp: "DoResponse d adaptor httpResp w3 = (Inr (UsagePtr usage), w4)"
    and run: "ImageHelper d w0 = (out, w', calls)"
  shows "out = Return None \<and>
         w' = postConsumeQuota d
                \<lparr>PromptTokens = (if PromptTokens usage = 0 then int_of_uint (N request)
                                   else PromptTokens usage),
                 CompletionTokens = CompletionTokens usage,
                 TotalTokens = (if TotalTokens usage = 0 then int_of_uint (N request)
                                  else TotalTokens usage)\<rparr>
                (fst (logContentOf (Sprintf_f1 d) request w4))
                (snd (logContentOf (Sprintf_f1 d) request w4)) \<and>
         last calls = Call_postConsumeQuota
                \<lparr>PromptTokens = (if PromptTokens usage = 0 then int_of_uint (N request)
                                   else PromptTokens usage),
                 CompletionTokens = CompletionTokens usage,
                 TotalTokens = (if TotalTokens usage = 0 then int_of_uint (N request)
                                  else TotalTokens usage)\<rparr>
                (fst (logContentOf (Sprintf_f1 d) request w4)) \<and>
         (uint (N request) < 2 ^ 63 \<longrightarrow> sint (int_of_uint (N request)) = uint (N request))"
proof -
  from run_with_other_consumer[OF prep body req resp, of "postConsumeQuota d"] run
  have "out = Return None"
    and "w' = postConsumeQuota d (usageFallback_spec usage (N request))
                (fst (logContentOf (Sprintf_f1 d) request w4))
                (snd (logContentOf (Sprintf_f1 d) request w4))"
    and "last calls = Call_postConsumeQuota (usageFallback_spec usage (N request))
                (fst (logContentOf (Sprintf_f1 d) request w4))"
    by simp_all
  with int_of_uint_value[of "N request"] show ?thesis
    by (simp add: usageFallback_spec_def)
qed

text \<open>
  Claim C2, amended, at the run of the deployment that keeps a journal: the adaptor
  reports zero prompt and total tokens and 7 completion tokens, the request asks for 2
  images, and the consumption journalled is of 2, 7 and 2.
\<close>

theorem usage_fallback_witness:
  "N example_request = 2 \<and>
   DoResponse journal_deps 7 None journal_world
     = (Inr (UsagePtr \<lparr>PromptTokens = 0, CompletionTokens = 7, TotalTokens = 0\<rparr>),
        journal Applied_DoResponse journal_world) \<and>
   fst (ImageHelper journal_deps journal_world) = Return None \<and>
   concat (map consumed (World.more (fst (snd (ImageHelper journal_deps journal_world)))))
     = [\<lparr>PromptTokens = 2, CompletionTokens = 7, TotalTokens = 2\<rparr>]"
proof -
  define W1 where "W1 = fst (snd (ImageHelper_prepare journal_deps journal_world))"
  define W2 where "W2 = fst (snd (ImageHelper_body journal_deps 7 example_request W1))"
  define W3 where "W3 = fst (snd (ImageHelper_request journal_deps 7 ''{model:dall-e-3}'' W2))"
  let ?resp = "\<lparr>StatusCode = 200, ContentType = ''application/json'', Body = ''{}''\<rparr>"
  have prep: "ImageHelper_prepare journal_deps journal_world
      = (Inr (example_request, 7), W1, snd (snd (ImageHelper_prepare journal_deps journal_world)))"
    unfolding W1_def by (simp add: prod_eq_iff journal_defs pipeline_defs)
  have body: "ImageHelper_body journal_deps 7 example_request W1
      = (Inr ''{model:dall-e-3}'', W2, snd (snd (ImageHelper_body journal_deps 7 example_request W1)))"
    unfolding W2_def W1_def by (simp add: prod_eq_iff journal_defs pipeline_defs)
  have req: "ImageHelper_request journal_deps 7 ''{model:dall-e-3}'' W2
      = (Inr (Some ?resp, ''{502:500}''), W3,
         snd (snd (ImageHelper_request journal_deps 7 ''{model:dall-e-3}'' W2)))"
    unfolding W3_def W2_def W1_def by (simp add: prod_eq_iff journal_defs pipeline_defs)
  have resp: "DoResponse journal_deps 7 (Some ?resp) W3
      = (Inr (UsagePtr \<lparr>PromptTokens = 0, CompletionTokens = 7, TotalTokens = 0\<rparr>),
         journal Applied_DoResponse W3)"
    by (simp add: journal_deps_def)
  from zero_token_counts_fall_back_to_image_count[OF prep body req resp run_triple]
  have "fst (ImageHelper journal_deps journal_world) = Return None"
    by simp
  with journal_run(3) show ?thesis
    by (simp add: journal_deps_def example_request_def)
qed

text \<open>
  Claim C3. When passthrough is enabled (the global flag or the channel's flag, read at
  line 55), no call of \<^verbatim>\<open>ConvertImageRequest\<close>, of \<^verbatim>\<open>Marshal\<close> or of
  \<^verbatim>\<open>ApplyParamOverride\<close> is made; if reading the raw body fails, the run returns the
  error \<^verbatim>\<open>ReadRequestBodyFailed\<close> (status 400, retry skipped) and sends nothing; otherwise
  \<^verbatim>\<open>DoRequest\<close> is called exactly once, with exactly the bytes that \<^verbatim>\<open>GetRequestBody\<close>
  returned.
\<close>

theorem passthrough_forwards_raw_body:
  assumes prep: "ImageHelper_prepare d w0 = (Inr (request, adaptor), w1, calls1)"
    and pt: "PassThroughRequestEnabled w1 \<or> PassThroughBodyEnabled (info w1)"
    and run: "ImageHelper d w0 = (out, w', calls)"
  shows "list_all (\<lambda>c. \<not> is_ConvertImageRequest c \<and> \<not> is_Marshal c \<and> \<not> is_ApplyParamOverride c) calls \<and>
         (case GetRequestBody d w1 of
            (Inl err, w2) \<Rightarrow>
              out = Return (Some (NewErrorWithStatusCode err ErrorCodeReadRequestBodyFailed
                                    StatusBadRequest [ErrOptionWithSkipRetry]))
              \<and> filter is_DoRequest calls = []
          | (Inr body, w2) \<Rightarrow> filter is_DoRequest calls = [Call_DoRequest body])"
proof -
  have body: "ImageHelper_body d adaptor request w1 =
      (case GetRequestBody d w1 of
         (Inl err, w2) \<Rightarrow>
           (Inl (NewErrorWithStatusCode err ErrorCodeReadRequestBodyFailed StatusBadRequest
                   [ErrOptionWithSkipRetry]), w2, [Call_GetRequestBody])
       | (Inr body, w2) \<Rightarrow> (Inr body, w2, [Call_GetRequestBody]))"
    using pt by (simp add: ImageHelper_body_def)
  have c1: "list_all (\<lambda>c. stage c \<le> 4) calls1"
    using prepare_calls[OF prep] by simp
  then have f1: "filter is_DoRequest calls1 = []"
    by (auto simp: is_stage filter_empty_conv list_all_iff)
  from run prep show ?thesis
  proof (cases rule: ImageHelper_prepared_cases)
    case (body_fails e calls2)
    with body c1 f1 show ?thesis
      by (auto simp: is_stage list_all_iff split: prod.splits sum.splits)
  next
    case (request_ends requestBody w2 calls2 calls3)
    from request_calls[OF request_ends(2)] obtain more where
      m: "calls3 = Call_DoRequest requestBody # more" "list_all (\<lambda>c. stage c \<in> {10, 12}) more"
      by blast
    then have "filter is_DoRequest more = []"
      by (auto simp: is_stage filter_empty_conv list_all_iff)
    with m request_ends body c1 f1 show ?thesis
      by (auto simp: is_stage list_all_iff split: prod.splits sum.splits)
  next
    case (response requestBody w2 calls2 httpResp statusCodeMappingStr w3 calls3 calls4)
    from request_calls[OF response(2)] have c3: "calls3 = [Call_DoRequest requestBody]"
      by auto
    from response_calls[OF response(3)] obtain more where
      m: "calls4 = Call_DoResponse httpResp (info w3) # more" "list_all (\<lambda>c. 12 \<le> stage c) more"
      by blast
    then have "filter is_DoRequest more = []"
      by (auto simp: is_stage filter_empty_conv list_all_iff)
    with m response body c1 c3 f1 show ?thesis
      by (auto simp: is_stage list_all_iff split: prod.splits sum.splits)
  qed
qed

text \<open>
  Claim C3 at a run with the channel's passthrough flag set and a non-empty override:
  the raw body is what is sent.
\<close>

theorem passthrough_witness:
  "PassThroughBodyEnabled (info passthrough_world) \<and>
   ParamOverride (info passthrough_world) \<noteq> [] \<and>
   GetRequestBody example_deps passthrough_world = (Inr ''{prompt:cat,n:2,size:1024x1024}'', passthrough_world) \<and>
   filter is_DoRequest (snd (snd (ImageHelper example_deps passthrough_world)))
     = [Call_DoRequest ''{prompt:cat,n:2,size:1024x1024}''] \<and>
   list_all (\<lambda>c. \<not> is_ConvertImageRequest c \<and> \<not> is_Marshal c \<and> \<not> is_ApplyParamOverride c)
     (snd (snd (ImageHelper example_deps passthrough_world)))"
proof -
  have pt: "PassThroughRequestEnabled passthrough_world \<or> PassThroughBodyEnabled (info passthrough_world)"
    by (simp add: example_defs)
  have body: "GetRequestBody example_deps passthrough_world
                = (Inr ''{prompt:cat,n:2,size:1024x1024}'', passthrough_world)"
    by (simp add: example_defs)
  from passthrough_forwards_raw_body[OF passthrough_prepare pt run_triple] body
  show ?thesis by (simp add: example_defs)
qed

text \<open>
  Claim C4 says that with passthrough disabled and a non-empty override set the override
  is applied, for every request. Here passthrough is disabled, the override set is not
  empty and the override would add a field, but the adaptor's conversion returns a
  \<^verbatim>\<open>*bytes.Buffer\<close>: the run succeeds, \<^verbatim>\<open>ApplyParamOverride\<close> is not called, and the body
  journalled as sent is the buffer, without the field.
\<close>

theorem buffer_payload_counterexample:
  "\<not> (PassThroughRequestEnabled journal_override_world
       \<or> PassThroughBodyEnabled (info journal_override_world)) \<and>
   ParamOverride (info journal_override_world) = [(''quality'', ''hd'')] \<and>
   fst (ImageHelper journal_buffer_deps journal_override_world) = Return None \<and>
   filter is_ApplyParamOverride (snd (snd (ImageHelper journal_buffer_deps journal_override_world))) = [] \<and>
   concat (map sent (World.more (fst (snd (ImageHelper journal_buffer_deps journal_override_world)))))
     = [''{model:custom}''] \<and>
   ApplyParamOverride journal_buffer_deps ''{model:custom}'' [(''quality'', ''hd'')]
     = Inr ''{model:custom,quality:hd}''"
  by (simp add: journal_defs pipeline_defs)

text \<open>
  Claim C4, amended. With passthrough disabled: every call of \<^verbatim>\<open>ApplyParamOverride\<close> in
  a run comes right after a call of \<^verbatim>\<open>Marshal\<close> and is applied to the bytes that
  \<^verbatim>\<open>Marshal\<close> returned (never to the payload before serialization). When the converted
  payload is not a \<^verbatim>\<open>*bytes.Buffer\<close>, is serialized to \<open>jsonData\<close>, and the override set
  is not empty, the override is applied exactly once, to \<open>jsonData\<close>; if it fails the
  run returns \<^verbatim>\<open>ChannelParamOverrideInvalid\<close> with the retry-skip option, sends nothing
  and ends in the state the conversion left; otherwise the patched bytes are what is
  sent: the one call of \<^verbatim>\<open>DoRequest\<close> has them, and the run ends as \<^verbatim>\<open>DoRequest\<close>,
  applied to the patched bytes, decides when it fails or answers with a status other
  than 200. When the converted payload is a \<^verbatim>\<open>*bytes.Buffer\<close>, no override is applied and
  the buffer is what is sent.
\<close>

theorem override_patches_the_serialized_body:
  assumes prep: "ImageHelper_prepare d w0 = (Inr (request, adaptor), w1, calls1)"
    and npt: "\<not> (PassThroughRequestEnabled w1 \<or> PassThroughBodyEnabled (info w1))"
    and run: "ImageHelper d w0 = (out, w', calls)"
  shows "(\<forall>j ov. Call_ApplyParamOverride j ov \<in> set calls \<longrightarrow>
            (\<exists>payload pre post.
               calls = pre @ [Call_Marshal payload, Call_ApplyParamOverride j ov] @ post
               \<and> Marshal d payload = Inr j))
       \<and> (\<forall>payload w2 jsonData.
             ConvertImageRequest d adaptor request w1 = (Inr (Payload payload), w2)
             \<and> Marshal d payload = Inr jsonData
             \<and> length (ParamOverride (info w2)) > 0 \<longrightarrow>
             filter is_ApplyParamOverride calls
               = [Call_ApplyParamOverride jsonData (ParamOverride (info w2))]
             \<and> (case ApplyParamOverride d jsonData (ParamOverride (info w2)) of
                   Inl err \<Rightarrow>
                     out = Return (Some (NewError err ErrorCodeChannelParamOverrideInvalid
                                           [ErrOptionWithSkipRetry]))
                     \<and> filter is_DoRequest calls = []
                     \<and> w' = w2
                 | Inr patched \<Rightarrow>
                     filter is_DoRequest calls = [Call_DoRequest patched]
                     \<and> (\<forall>err w3. DoRequest d adaptor patched w2 = (Inl err, w3) \<longrightarrow>
                           out = Return (Some (NewOpenAIError err ErrorCodeDoRequestFailed
                                                 StatusInternalServerError))
                           \<and> w' = w3)
                     \<and> (\<forall>resp w3. DoRequest d adaptor patched w2 = (Inr (RespHttp resp), w3)
                                    \<and> StatusCode resp \<noteq> StatusOK \<longrightarrow>
                           out = Return (Some (ResetStatusCode d (RelayErrorHandler d resp)
                                                 (status_code_mapping w2)))
                           \<and> w' = w3\<lparr>info := (info w3)\<lparr>IsStream :=
                                  IsStream (info w3)
                                  \<or> prefix ''text/event-stream'' (ContentType resp)\<rparr>\<rparr>)))
       \<and> (\<forall>buf w2.
             ConvertImageRequest d adaptor request w1 = (Inr (BytesBuffer buf), w2) \<longrightarrow>
             filter is_ApplyParamOverride calls = []
             \<and> filter is_DoRequest calls = [Call_DoRequest buf])"
proof (intro conjI allI impI)
  fix j ov
  assume "Call_ApplyParamOverride j ov \<in> set calls"
  from override_follows_marshal[OF run this]
  show "\<exists>payload pre post.
          calls = pre @ [Call_Marshal payload, Call_ApplyParamOverride j ov] @ post
          \<and> Marshal d payload = Inr j" .
next
  fix payload w2 jsonData
  assume a: "ConvertImageRequest d adaptor request w1 = (Inr (Payload payload), w2)
             \<and> Marshal d payload = Inr jsonData
             \<and> length (ParamOverride (info w2)) > 0"
  then have conv: "ConvertImageRequest d adaptor request w1 = (Inr (Payload payload), w2)"
    and ser: "Marshal d payload = Inr jsonData"
    and ov: "length (ParamOverride (info w2)) > 0" by simp_all
  let ?cs = "[Call_ConvertImageRequest request, Call_Marshal payload,
              Call_ApplyParamOverride jsonData (ParamOverride (info w2))]"
  note b = serialization_branch[OF prep npt conv ser ov run]
  from b obtain more where
    m: "calls = calls1 @ [Call_ConvertImageRequest request, Call_Marshal payload,
                  Call_ApplyParamOverride jsonData (ParamOverride (info w2))] @ more"
       "list_all (\<lambda>c. \<not> is_ApplyParamOverride c) (calls1 @ more)"
    by blast
  from m(2) have "filter is_ApplyParamOverride calls1 = []" "filter is_ApplyParamOverride more = []"
    by (auto simp: filter_empty_conv list_all_iff)
  with m(1) show "filter is_ApplyParamOverride calls
               = [Call_ApplyParamOverride jsonData (ParamOverride (info w2))]"
    by simp
  show "case ApplyParamOverride d jsonData (ParamOverride (info w2)) of
          Inl err \<Rightarrow>
            out = Return (Some (NewError err ErrorCodeChannelParamOverrideInvalid
                                  [ErrOptionWithSkipRetry]))
            \<and> filter is_DoRequest calls = []
            \<and> w' = w2
        | Inr patched \<Rightarrow>
            filter is_DoRequest calls = [Call_DoRequest patched]
            \<and> (\<forall>err w3. DoRequest d adaptor patched w2 = (Inl err, w3) \<longrightarrow>
                  out = Return (Some (NewOpenAIError err ErrorCodeDoRequestFailed
                                        StatusInternalServerError))
                  \<and> w' = w3)
            \<and> (\<forall>resp w3. DoRequest d adaptor patched w2 = (Inr (RespHttp resp), w3)
                           \<and> StatusCode resp \<noteq> StatusOK \<longrightarrow>
                  out = Return (Some (ResetStatusCode d (RelayErrorHandler d resp)
                                        (status_code_mapping w2)))
                  \<and> w' = w3\<lparr>info := (info w3)\<lparr>IsStream :=
                         IsStream (info w3)
                         \<or> prefix ''text/event-stream'' (ContentType resp)\<rparr>\<rparr>)"
  proof (cases "ApplyParamOverride d jsonData (ParamOverride (info w2))")
    case (Inl err)
    then have body: "ImageHelper_body d adaptor request w1 =
        (Inl (NewError err ErrorCodeChannelParamOverrideInvalid [ErrOptionWithSkipRetry]), w2, ?cs)"
      using npt conv ser ov by (simp add: ImageHelper_body_def)
    from run prep body have "w' = w2" by (simp add: ImageHelper_def)
    with b Inl show ?thesis by simp
  next
    case (Inr patched)
    then have body: "ImageHelper_body d adaptor request w1 = (Inr patched, w2, ?cs)"
      using npt conv ser ov by (simp add: ImageHelper_body_def)
    have failed: "out = Return (Some (NewOpenAIError err ErrorCodeDoRequestFailed
                                        StatusInternalServerError)) \<and> w' = w3"
      if dr: "DoRequest d adaptor patched w2 = (Inl err, w3)" for err w3
    proof -
      have "ImageHelper_request d adaptor patched w2 =
              (Inl (Return (Some (NewOpenAIError err ErrorCodeDoRequestFailed
                                    StatusInternalServerError))),
               w3, [Call_DoRequest patched])"
        using dr by (simp add: ImageHelper_request_def)
      from run_request_ends[OF run prep body this] show ?thesis by simp
    qed
    have refused: "out = Return (Some (ResetStatusCode d (RelayErrorHandler d resp)
                                         (status_code_mapping w2)))
                   \<and> w' = w3\<lparr>info := (info w3)\<lparr>IsStream :=
                          IsStream (info w3)
                          \<or> prefix ''text/event-stream'' (ContentType resp)\<rparr>\<rparr>"
      if dr: "DoRequest d adaptor patched w2 = (Inr (RespHttp resp), w3)
              \<and> StatusCode resp \<noteq> StatusOK" for resp w3
    proof -
      from dr have "DoRequest d adaptor patched w2 = (Inr (RespHttp resp), w3)"
        "StatusCode resp \<noteq> StatusOK" by simp_all
      from remap_non_success[OF run prep body this] show ?thesis by simp
    qed
    from b Inr failed refused show ?thesis by simp
  qed
next
  fix buf w2
  assume conv: "ConvertImageRequest d adaptor request w1 = (Inr (BytesBuffer buf), w2)"
  from raw_buffer_branch[OF prep npt conv run]
  show "filter is_ApplyParamOverride calls = []" "filter is_DoRequest calls = [Call_DoRequest buf]"
    by (simp_all add: filter_empty_conv list_all_iff)
qed

text \<open>
  Claim C4, amended, at a run whose override sets \<^verbatim>\<open>quality\<close>, a field the serialized
  payload does not have: the override is applied to the serialized bytes, and the body
  journalled as sent has the field.
\<close>

theorem override_witness:
  "\<not> (PassThroughRequestEnabled journal_override_world
       \<or> PassThroughBodyEnabled (info journal_override_world)) \<and>
   Marshal journal_deps ''dall-e-3'' = Inr ''{model:dall-e-3}'' \<and>
   ParamOverride (info journal_override_world) = [(''quality'', ''hd'')] \<and>
   filter is_ApplyParamOverride (snd (snd (ImageHelper journal_deps journal_override_world)))
     = [Call_ApplyParamOverride ''{model:dall-e-3}'' [(''quality'', ''hd'')]] \<and>
   filter is_DoRequest (snd (snd (ImageHelper journal_deps journal_override_world)))
     = [Call_DoRequest ''{model:dall-e-3,quality:hd}''] \<and>
   concat (map sent (World.more (fst (snd (ImageHelper journal_deps journal_override_world)))))
     = [''{model:dall-e-3,quality:hd}'']"
proof -
  define W1 where "W1 = journal Applied_Init (journal (Applied_ModelMappedHelper example_request)
                          (journal Applied_InitChannelMeta journal_override_world))"
  have prep: "ImageHelper_prepare journal_deps journal_override_world =
      (Inr (example_request, 7), W1,
       [Call_InitChannelMeta, Call_DeepCopy example_request, Call_ModelMappedHelper example_request,
        Call_GetAdaptor 1, Call_Init])"
    unfolding W1_def by (simp add: journal_defs pipeline_defs)
  have npt: "\<not> (PassThroughRequestEnabled W1 \<or> PassThroughBodyEnabled (info W1))"
    unfolding W1_def by (simp add: journal_defs)
  have a: "ConvertImageRequest journal_deps 7 example_request W1
                = (Inr (Payload ''dall-e-3''), journal (Applied_ConvertImageRequest example_request) W1)
           \<and> Marshal journal_deps ''dall-e-3'' = Inr ''{model:dall-e-3}''
           \<and> length (ParamOverride (info (journal (Applied_ConvertImageRequest example_request) W1))) > 0"
    unfolding W1_def by (simp add: journal_defs)
  have ov: "ParamOverride (info (journal (Applied_ConvertImageRequest example_request) W1))
              = [(''quality'', ''hd'')]"
    unfolding W1_def by (simp add: journal_defs)
  have patched: "ApplyParamOverride journal_deps ''{model:dall-e-3}'' [(''quality'', ''hd'')]
                   = Inr ''{model:dall-e-3,quality:hd}''"
    by (simp add: journal_defs)
  note override_patches_the_serialized_body[OF prep npt run_triple, THEN conjunct2, THEN conjunct1,
      rule_format, OF a]
  with patched ov have calls:
    "filter is_ApplyParamOverride (snd (snd (ImageHelper journal_deps journal_override_world)))
       = [Call_ApplyParamOverride ''{model:dall-e-3}'' [(''quality'', ''hd'')]]
     \<and> filter is_DoRequest (snd (snd (ImageHelper journal_deps journal_override_world)))
       = [Call_DoRequest ''{model:dall-e-3,quality:hd}'']"
    by simp
  have "concat (map sent (World.more (fst (snd (ImageHelper journal_deps journal_override_world)))))
          = [''{model:dall-e-3,quality:hd}'']"
    by (simp add: journal_defs pipeline_defs int_of_uint_def)
  with calls show ?thesis by (simp add: journal_defs)
qed

text \<open>
  Claim C5. A response whose status is not 200 ends the run with the error of
  \<^verbatim>\<open>RelayErrorHandler\<close> passed through \<^verbatim>\<open>ResetStatusCode\<close>, and \<^verbatim>\<open>DoResponse\<close> is never
  called; an error of \<^verbatim>\<open>DoResponse\<close> is passed through \<^verbatim>\<open>ResetStatusCode\<close> with the same
  mapping; an error built before that (by the first part, by the body construction, or
  for a failed \<^verbatim>\<open>DoRequest\<close>) is returned as built, with no call of \<^verbatim>\<open>ResetStatusCode\<close>.
\<close>

theorem upstream_failures_pass_through_status_remapping:
  assumes run: "ImageHelper d w0 = (out, w', calls)"
  shows
   "(\<forall>e w1 calls1. ImageHelper_prepare d w0 = (Inl e, w1, calls1) \<longrightarrow>
        out = Return (Some e) \<and> filter is_ResetStatusCode calls = [])
    \<and> (\<forall>request adaptor w1 calls1.
         ImageHelper_prepare d w0 = (Inr (request, adaptor), w1, calls1) \<longrightarrow>
         (\<forall>e w2 calls2. ImageHelper_body d adaptor request w1 = (Inl e, w2, calls2) \<longrightarrow>
            out = Return (Some e) \<and> filter is_ResetStatusCode calls = [])
         \<and> (\<forall>requestBody w2 calls2.
              ImageHelper_body d adaptor request w1 = (Inr requestBody, w2, calls2) \<longrightarrow>
              (\<forall>err w3. DoRequest d adaptor requestBody w2 = (Inl err, w3) \<longrightarrow>
                 out = Return (Some (NewOpenAIError err ErrorCodeDoRequestFailed StatusInternalServerError))
                 \<and> filter is_ResetStatusCode calls = [])
              \<and> (\<forall>resp w3. DoRequest d adaptor requestBody w2 = (Inr (RespHttp resp), w3)
                            \<and> StatusCode resp \<noteq> StatusOK \<longrightarrow>
                 out = Return (Some (ResetStatusCode d (RelayErrorHandler d resp) (status_code_mapping w2)))
                 \<and> filter is_DoResponse calls = []
                 \<and> filter (\<lambda>c. 10 \<le> stage c) calls =
                     [Call_RelayErrorHandler resp,
                      Call_ResetStatusCode (RelayErrorHandler d resp) (status_code_mapping w2)])
              \<and> (\<forall>httpResp s w3 calls3 e w4.
                    ImageHelper_request d adaptor requestBody w2 = (Inr (httpResp, s), w3, calls3)
                    \<and> DoResponse d adaptor httpResp w3 = (Inl e, w4) \<longrightarrow>
                 out = Return (Some (ResetStatusCode d e (status_code_mapping w2)))
                 \<and> filter (\<lambda>c. 10 \<le> stage c) calls =
                     [Call_DoResponse httpResp (info w3),
                      Call_ResetStatusCode e (status_code_mapping w2)])))"
proof (intro conjI allI impI)
  fix e w1 calls1
  assume "ImageHelper_prepare d w0 = (Inl e, w1, calls1)"
  from remap_local_prepare[OF run this]
  show "out = Return (Some e)" "filter is_ResetStatusCode calls = []" by simp_all
next
  fix request adaptor w1 calls1 e w2 calls2
  assume "ImageHelper_prepare d w0 = (Inr (request, adaptor), w1, calls1)"
    "ImageHelper_body d adaptor request w1 = (Inl e, w2, calls2)"
  from remap_local_body[OF run this]
  show "out = Return (Some e)" "filter is_ResetStatusCode calls = []" by simp_all
next
  fix request adaptor w1 calls1 requestBody w2 calls2 err w3
  assume "ImageHelper_prepare d w0 = (Inr (request, adaptor), w1, calls1)"
    "ImageHelper_body d adaptor request w1 = (Inr requestBody, w2, calls2)"
    "DoRequest d adaptor requestBody w2 = (Inl err, w3)"
  from remap_local_transport[OF run this]
  show "out = Return (Some (NewOpenAIError err ErrorCodeDoRequestFailed StatusInternalServerError))"
    "filter is_ResetStatusCode calls = []" by simp_all
next
  fix request adaptor w1 calls1 requestBody w2 calls2 resp w3
  assume a: "ImageHelper_prepare d w0 = (Inr (request, adaptor), w1, calls1)"
    "ImageHelper_body d adaptor request w1 = (Inr requestBody, w2, calls2)"
    and b: "DoRequest d adaptor requestBody w2 = (Inr (RespHttp resp), w3) \<and> StatusCode resp \<noteq> StatusOK"
  from b have "DoRequest d adaptor requestBody w2 = (Inr (RespHttp resp), w3)"
    "StatusCode resp \<noteq> StatusOK" by simp_all
  from remap_non_success[OF run a this]
  show "out = Return (Some (ResetStatusCode d (RelayErrorHandler d resp) (status_code_mapping w2)))"
    "filter is_DoResponse calls = []"
    "filter (\<lambda>c. 10 \<le> stage c) calls =
       [Call_RelayErrorHandler resp,
        Call_ResetStatusCode (RelayErrorHandler d resp) (status_code_mapping w2)]"
    by simp_all
next
  fix request adaptor w1 calls1 requestBody w2 calls2 httpResp s w3 calls3 e w4
  assume a: "ImageHelper_prepare d w0 = (Inr (request, adaptor), w1, calls1)"
    "ImageHelper_body d adaptor request w1 = (Inr requestBody, w2, calls2)"
    and b: "ImageHelper_request d adaptor requestBody w2 = (Inr (httpResp, s), w3, calls3)
            \<and> DoResponse d adaptor httpResp w3 = (Inl e, w4)"
  from b have "ImageHelper_request d adaptor requestBody w2 = (Inr (httpResp, s), w3, calls3)"
    "DoResponse d adaptor httpResp w3 = (Inl e, w4)" by simp_all
  from remap_reconciliation[OF run a this]
  show "out = Return (Some (ResetStatusCode d e (status_code_mapping w2)))"
    "filter (\<lambda>c. 10 \<le> stage c) calls =
       [Call_DoResponse httpResp (info w3), Call_ResetStatusCode e (status_code_mapping w2)]"
    by simp_all
qed

text \<open>
  Claim C5 at the run whose upstream answers 502: the handler's error, status 502, is
  returned with the remapped status 500, and \<^verbatim>\<open>DoResponse\<close> is not called.
\<close>

theorem remapping_witness:
  "status_code_mapping example_world = ''{502:500}'' \<and>
   RelayErrorHandler bad_gateway_deps \<lparr>StatusCode = 502, ContentType = ''text/html'', Body = ''''\<rparr>
     = ForeignError ''bad response status code'' 502 False \<and>
   fst (ImageHelper bad_gateway_deps example_world)
     = Return (Some (ForeignError ''bad response status code'' 500 False)) \<and>
   filter is_DoResponse (snd (snd (ImageHelper bad_gateway_deps example_world))) = []"
proof -
  have dr: "DoRequest bad_gateway_deps 7 ''{model:dall-e-3}'' example_world
              = (Inr (RespHttp \<lparr>StatusCode = 502, ContentType = ''text/html'', Body = ''''\<rparr>), example_world)
            \<and> StatusCode \<lparr>StatusCode = 502, ContentType = ''text/html'', Body = ''''\<rparr> \<noteq> StatusOK"
    by (simp add: example_defs StatusOK_def)
  from upstream_failures_pass_through_status_remapping[OF run_triple, of bad_gateway_deps example_world]
    bad_gateway_prepare bad_gateway_body dr
  have "fst (ImageHelper bad_gateway_deps example_world)
          = Return (Some (ResetStatusCode bad_gateway_deps
               (RelayErrorHandler bad_gateway_deps \<lparr>StatusCode = 502, ContentType = ''text/html'', Body = ''''\<rparr>)
               (status_code_mapping example_world)))
        \<and> filter is_DoResponse (snd (snd (ImageHelper bad_gateway_deps example_world))) = []"
    by blast
  then show ?thesis by (simp add: example_defs)
qed

text \<open>
  Claim C6 says that a failed conversion and a failed serialization both give
  \<^verbatim>\<open>ConvertRequestFailed\<close> with the retry-skip flag. The code at the two failures: line 64
  builds the error of a failed \<^verbatim>\<open>ConvertImageRequest\<close> without
  \<^verbatim>\<open>ErrOptionWithSkipRetry\<close>; line 73 builds the error of a failed \<^verbatim>\<open>Marshal\<close>, with the
  same code, with it.
\<close>

theorem convert_failure_is_built_without_skip_retry:
  "fst (ImageHelper convert_fails_deps example_world)
     = Return (Some (NewError ''not implemented'' ErrorCodeConvertRequestFailed [])) \<and>
   \<not> skipRetry (NewError ''not implemented'' ErrorCodeConvertRequestFailed []) \<and>
   fst (ImageHelper marshal_fails_deps example_world)
     = Return (Some (NewError ''json: unsupported value'' ErrorCodeConvertRequestFailed [ErrOptionWithSkipRetry])) \<and>
   skipRetry (NewError ''json: unsupported value'' ErrorCodeConvertRequestFailed [ErrOptionWithSkipRetry])"
  by (simp add: example_defs pipeline_defs)

text \<open>
  Claim C6, the failed conversion alone: the error has the code
  \<^verbatim>\<open>ConvertRequestFailed\<close> and does not carry the retry-skip flag.
\<close>

theorem convert_failure_witness:
  "(case fst (ImageHelper convert_fails_deps example_world) of
      Return (Some e) \<Rightarrow> errorCodeOf e = Some ErrorCodeConvertRequestFailed \<and> \<not> skipRetry e
    | _ \<Rightarrow> False)"
  using convert_failure_is_built_without_skip_retry by simp

text \<open>
  Claim C7 says that a request whose API type has no registered adaptor fails with
  \<^verbatim>\<open>InvalidAPIType\<close> before the copy and the mapping are attempted, and so never with
  \<^verbatim>\<open>ChannelModelMappedError\<close>. Here no adaptor is registered, the copy and the mapping are
  both called, the adaptor lookup is not, and the run fails with
  \<^verbatim>\<open>ChannelModelMappedError\<close>.
\<close>

theorem unregistered_adaptor_counterexample:
  "GetAdaptor unregistered_deps (ApiType (info example_world)) = None \<and>
   ImageHelper unregistered_deps example_world =
     (Return (Some (NewError ''model_mapping contains cycle'' ErrorCodeChannelModelMappedError
                      [ErrOptionWithSkipRetry])),
      example_world,
      [Call_InitChannelMeta, Call_DeepCopy example_request, Call_ModelMappedHelper example_request])"
  by (simp add: example_defs pipeline_defs)

text \<open>
  Claim C7, amended. Every run goes through the stages in the order of the source, each
  stage applied to the state the one before it left: the channel metadata is
  initialized and the type of the request is checked; the request is copied; the model
  name is mapped; the adaptor is looked up, which fails with \<^verbatim>\<open>InvalidAPIType\<close> when none
  is registered, and initialized; the body is built (the raw body on passthrough, else
  conversion, serialization and override); the request is sent; a status other than 200
  goes to the error handler and the status remapping; otherwise the response is
  reconciled, the usage normalized and the quota consumed. The run stops at the first
  stage that fails, with that stage's error and the calls made so far, so a failed copy
  or a failed mapping ends the run before any adaptor lookup. The ranks of the calls of
  a run are strictly increasing.
\<close>

theorem stages_run_in_source_order:
  assumes run: "ImageHelper d w0 = (out, w', calls)"
  shows "sorted_wrt (<) (map stage calls) \<and>
   (let build = (\<lambda>adaptor request w3.
          if PassThroughRequestEnabled w3 \<or> PassThroughBodyEnabled (info w3) then
            (case GetRequestBody d w3 of
               (Inl err, w4) \<Rightarrow>
                 (Inl (NewErrorWithStatusCode err ErrorCodeReadRequestBodyFailed StatusBadRequest
                         [ErrOptionWithSkipRetry]),
                  w4, [Call_GetRequestBody])
             | (Inr body, w4) \<Rightarrow> (Inr body, w4, [Call_GetRequestBody]))
          else
            (case ConvertImageRequest d adaptor request w3 of
               (Inl err, w4) \<Rightarrow>
                 (Inl (NewError err ErrorCodeConvertRequestFailed []), w4,
                  [Call_ConvertImageRequest request])
             | (Inr (BytesBuffer buf), w4) \<Rightarrow> (Inr buf, w4, [Call_ConvertImageRequest request])
             | (Inr (Payload convertedRequest), w4) \<Rightarrow>
                 (case Marshal d convertedRequest of
                    Inl err \<Rightarrow>
                      (Inl (NewError err ErrorCodeConvertRequestFailed [ErrOptionWithSkipRetry]),
                       w4, [Call_ConvertImageRequest request, Call_Marshal convertedRequest])
                  | Inr jsonData \<Rightarrow>
                      (if length (ParamOverride (info w4)) > 0 then
                         (case ApplyParamOverride d jsonData (ParamOverride (info w4)) of
                            Inl err \<Rightarrow>
                              (Inl (NewError err ErrorCodeChannelParamOverrideInvalid
                                      [ErrOptionWithSkipRetry]),
                               w4, [Call_ConvertImageRequest request, Call_Marshal convertedRequest,
                                    Call_ApplyParamOverride jsonData (ParamOverride (info w4))])
                          | Inr patched \<Rightarrow>
                              (Inr patched, w4,
                               [Call_ConvertImageRequest request, Call_Marshal convertedRequest,
                                Call_ApplyParamOverride jsonData (ParamOverride (info w4))]))
                       else (Inr jsonData, w4,
                             [Call_ConvertImageRequest request, Call_Marshal convertedRequest])))));
        reconcile = (\<lambda>adaptor request httpResp mapping w5 earlier.
          case DoResponse d adaptor httpResp w5 of
            (Inl e, w6) \<Rightarrow>
              out = Return (Some (ResetStatusCode d e mapping)) \<and> w' = w6
              \<and> calls = earlier @ [Call_DoResponse httpResp (info w5), Call_ResetStatusCode e mapping]
          | (Inr UsageOther, w6) \<Rightarrow>
              out = Panic \<and> w' = w6 \<and> calls = earlier @ [Call_DoResponse httpResp (info w5)]
          | (Inr (UsagePtr usage), w6) \<Rightarrow>
              out = Return None
              \<and> w' = postConsumeQuota d (usageFallback_spec usage (N request))
                         (fst (logContentOf (Sprintf_f1 d) request w6))
                         (snd (logContentOf (Sprintf_f1 d) request w6))
              \<and> calls = earlier @
                    [Call_DoResponse httpResp (info w5),
                     Call_postConsumeQuota (usageFallback_spec usage (N request))
                       (fst (logContentOf (Sprintf_f1 d) request w6))])
    in
    (case Request (info (InitChannelMeta d w0)) of
      OtherRequest typeName \<Rightarrow>
        out = Return (Some (NewErrorWithStatusCode
                (''invalid request type, expected dto.ImageRequest, got '' @ typeName)
                ErrorCodeInvalidRequest StatusBadRequest [ErrOptionWithSkipRetry]))
        \<and> w' = InitChannelMeta d w0
        \<and> calls = [Call_InitChannelMeta]
    | ImageRequestPtr imageReq \<Rightarrow>
       (case DeepCopy d imageReq of
          Inl err \<Rightarrow>
            out = Return (Some (NewError (''failed to copy request to ImageRequest: '' @ err)
                                  ErrorCodeInvalidRequest [ErrOptionWithSkipRetry]))
            \<and> w' = InitChannelMeta d w0
            \<and> calls = [Call_InitChannelMeta, Call_DeepCopy imageReq]
        | Inr request0 \<Rightarrow>
           (case ModelMappedHelper d request0 (InitChannelMeta d w0) of
              ((Some err, request), w2) \<Rightarrow>
                out = Return (Some (NewError err ErrorCodeChannelModelMappedError [ErrOptionWithSkipRetry]))
                \<and> w' = w2
                \<and> calls = [Call_InitChannelMeta, Call_DeepCopy imageReq, Call_ModelMappedHelper request0]
            | ((None, request), w2) \<Rightarrow>
               (case GetAdaptor d (ApiType (info w2)) of
                  None \<Rightarrow>
                    out = Return (Some (NewError (''invalid api type: '' @ show_int (ApiType (info w2)))
                                          ErrorCodeInvalidApiType [ErrOptionWithSkipRetry]))
                    \<and> w' = w2
                    \<and> calls = [Call_InitChannelMeta, Call_DeepCopy imageReq,
                                Call_ModelMappedHelper request0, Call_GetAdaptor (ApiType (info w2))]
                | Some adaptor \<Rightarrow>
                   (case build adaptor request (Adaptor_Init d adaptor w2) of
                      (Inl e, w3, calls2) \<Rightarrow>
                        out = Return (Some e) \<and> w' = w3
                        \<and> calls = [Call_InitChannelMeta, Call_DeepCopy imageReq,
                                    Call_ModelMappedHelper request0,
                                    Call_GetAdaptor (ApiType (info w2)), Call_Init] @ calls2
                    | (Inr requestBody, w3, calls2) \<Rightarrow>
                       (case DoRequest d adaptor requestBody w3 of
                          (Inl err, w4) \<Rightarrow>
                            out = Return (Some (NewOpenAIError err ErrorCodeDoRequestFailed
                                                  StatusInternalServerError))
                            \<and> w' = w4
                            \<and> calls = [Call_InitChannelMeta, Call_DeepCopy imageReq,
                                        Call_ModelMappedHelper request0,
                                        Call_GetAdaptor (ApiType (info w2)), Call_Init]
                                       @ calls2 @ [Call_DoRequest requestBody]
                        | (Inr RespOther, w4) \<Rightarrow>
                            out = Panic \<and> w' = w4
                            \<and> calls = [Call_InitChannelMeta, Call_DeepCopy imageReq,
                                        Call_ModelMappedHelper request0,
                                        Call_GetAdaptor (ApiType (info w2)), Call_Init]
                                       @ calls2 @ [Call_DoRequest requestBody]
                        | (Inr RespNil, w4) \<Rightarrow>
                            reconcile adaptor request None (status_code_mapping w3) w4
                              ([Call_InitChannelMeta, Call_DeepCopy imageReq,
                                Call_ModelMappedHelper request0,
                                Call_GetAdaptor (ApiType (info w2)), Call_Init]
                               @ calls2 @ [Call_DoRequest requestBody])
                        | (Inr (RespHttp httpResp), w4) \<Rightarrow>
                            (if StatusCode httpResp \<noteq> StatusOK then
                               out = Return (Some (ResetStatusCode d (RelayErrorHandler d httpResp)
                                                     (status_code_mapping w3)))
                               \<and> w' = w4\<lparr>info := (info w4)\<lparr>IsStream := IsStream (info w4)
                                           \<or> prefix ''text/event-stream'' (ContentType httpResp)\<rparr>\<rparr>
                               \<and> calls = [Call_InitChannelMeta, Call_DeepCopy imageReq,
                                           Call_ModelMappedHelper request0,
                                           Call_GetAdaptor (ApiType (info w2)), Call_Init]
                                          @ calls2 @
                                          [Call_DoRequest requestBody, Call_RelayErrorHandler httpResp,
                                           Call_ResetStatusCode (RelayErrorHandler d httpResp)
                                             (status_code_mapping w3)]
                             else
                               reconcile adaptor request (Some httpResp) (status_code_mapping w3)
                                 (w4\<lparr>info := (info w4)\<lparr>IsStream := IsStream (info w4)
                                      \<or> prefix ''text/event-stream'' (ContentType httpResp)\<rparr>\<rparr>)
                                 ([Call_InitChannelMeta, Call_DeepCopy imageReq,
                                   Call_ModelMappedHelper request0,
                                   Call_GetAdaptor (ApiType (info w2)), Call_Init]
                                  @ calls2 @ [Call_DoRequest requestBody])))))))))"
    (is "?order \<and> ?paths")
proof -
  have order: "sorted_wrt (<) (map stage calls)"
    using run
  proof (cases rule: ImageHelper_cases)
    case (prepare_fails e)
    then show ?thesis using prepare_calls by blast
  next
    case (body_fails request adaptor w1 calls1 e calls2)
    from prepare_calls[OF body_fails(1)] body_calls[OF body_fails(2)] body_fails(4)
    show ?thesis by (fastforce simp: sorted_wrt_append list_all_iff)
  next
    case (request_ends request adaptor w1 calls1 requestBody w2 calls2 calls3)
    from prepare_calls[OF request_ends(1)] body_calls[OF request_ends(2)]
      request_calls[OF request_ends(3)] request_ends(4)
    show ?thesis by (fastforce simp: sorted_wrt_append list_all_iff)
  next
    case (response request adaptor w1 calls1 requestBody w2 calls2 httpResp statusCodeMappingStr w3 calls3 calls4)
    from prepare_calls[OF response(1)] body_calls[OF response(2)] request_calls[OF response(3)]
      response_calls[OF response(4)] response(5)
    show ?thesis by (fastforce simp: sorted_wrt_append list_all_iff)
  qed
  have paths: "?paths"
    using run_paths[OF run] unfolding ImageHelper_body_def Let_def .
  from order paths show ?thesis by simp
qed

text \<open>
  Claim C7, amended, at two runs of the deployment that keeps a journal. With no adaptor
  registered, the copy and the mapping succeed, the four calls up to the lookup are
  made, the journal has the metadata initialization and the mapping, and the run fails
  with \<^verbatim>\<open>InvalidAPIType\<close>. With the adaptor registered the run succeeds and the journal
  has, in this order: metadata, mapping, adaptor initialization, conversion, transport,
  reconciliation, quota.
\<close>

theorem source_order_witness:
  "GetAdaptor journal_no_adaptor_deps (ApiType (info journal_world)) = None \<and>
   fst (ImageHelper journal_no_adaptor_deps journal_world)
     = Return (Some (NewError (''invalid api type: '' @ show_int 1) ErrorCodeInvalidApiType
                       [ErrOptionWithSkipRetry])) \<and>
   map applied_stage (World.more (fst (snd (ImageHelper journal_no_adaptor_deps journal_world)))) = [0, 2] \<and>
   map stage (snd (snd (ImageHelper journal_no_adaptor_deps journal_world))) = [0, 1, 2, 3] \<and>
   fst (ImageHelper journal_deps journal_world) = Return None \<and>
   map applied_stage (World.more (fst (snd (ImageHelper journal_deps journal_world))))
     = [0, 2, 4, 6, 9, 11, 13] \<and>
   map stage (snd (snd (ImageHelper journal_deps journal_world))) = [0, 1, 2, 3, 4, 6, 7, 9, 11, 13]"
proof -
  from stages_run_in_source_order[OF run_triple, of journal_no_adaptor_deps journal_world]
  have a: "fst (ImageHelper journal_no_adaptor_deps journal_world)
       = Return (Some (NewError (''invalid api type: '' @ show_int 1) ErrorCodeInvalidApiType
                       [ErrOptionWithSkipRetry]))
     \<and> map applied_stage (World.more (fst (snd (ImageHelper journal_no_adaptor_deps journal_world)))) = [0, 2]
     \<and> map stage (snd (snd (ImageHelper journal_no_adaptor_deps journal_world))) = [0, 1, 2, 3]"
    by (simp add: journal_defs ImageHelper_body_def logContentOf_def getImageCountAndSizeInfo_def
        StatusOK_def StatusBadRequest_def StatusInternalServerError_def Let_def)
  from stages_run_in_source_order[OF run_triple, of journal_deps journal_world]
  have b: "fst (ImageHelper journal_deps journal_world) = Return None
     \<and> map applied_stage (World.more (fst (snd (ImageHelper journal_deps journal_world))))
         = [0, 2, 4, 6, 9, 11, 13]
     \<and> map stage (snd (snd (ImageHelper journal_deps journal_world))) = [0, 1, 2, 3, 4, 6, 7, 9, 11, 13]"
    by (simp add: journal_defs ImageHelper_body_def logContentOf_def getImageCountAndSizeInfo_def
        StatusOK_def StatusBadRequest_def StatusInternalServerError_def Let_def usageFallback_spec_def)
  have "GetAdaptor journal_no_adaptor_deps (ApiType (info journal_world)) = None"
    by (simp add: journal_defs)
  with a b show ?thesis by simp
qed

text \<open>
  Claim C8. For the form that \<^verbatim>\<open>getImageCountAndSizeInfo\<close> finds (already parsed, or
  parsed now), the result is the count and the formatted total size of the parts that
  the specification's precedence selects: the parts of \<^verbatim>\<open>image\<close> if it has any, else
  those of \<^verbatim>\<open>image[]\<close> if it has any, else the parts of all fields whose name starts
  with \<^verbatim>\<open>image[\<close>, merged; with no part selected, count 0 and the empty string.
\<close>

theorem image_metadata_first_match_wins:
  assumes "Request_MultipartForm c = Some mf
           \<or> (Request_MultipartForm c = None \<and> ParseMultipartForm c = Inr mf)"
  shows "fst (getImageCountAndSizeInfo sprintf_f1 c) =
     (let parts = imageParts_spec mf in
      if parts = [] then (0, '''')
      else (length parts, formatSizeInfo sprintf_f1 (sum_list (map FileSize parts))))"
proof -
  from assms have "fst (getImageCountAndSizeInfo sprintf_f1 c) = countAndSizeOfForm sprintf_f1 mf"
    by (auto simp: getImageCountAndSizeInfo_def)
  then show ?thesis
    by (simp only: countAndSizeOfForm_spec)
qed

text \<open>
  Claim C8 at three forms: \<^verbatim>\<open>image\<close> (one part, 512 bytes) beside \<^verbatim>\<open>image[]\<close> counts only
  \<^verbatim>\<open>image\<close>; \<^verbatim>\<open>image[0]\<close> and \<^verbatim>\<open>image[1]\<close> (300 and 212 bytes) beside \<^verbatim>\<open>mask\<close> are
  merged; a form with no image field gives 0 and the empty string.
\<close>

theorem image_metadata_witness:
  "fst (getImageCountAndSizeInfo (Sprintf_f1 example_deps) (example_world\<lparr>Request_MultipartForm := Some form_image_and_array\<rparr>))
     = (1, ''512 B'') \<and>
   fst (getImageCountAndSizeInfo (Sprintf_f1 example_deps) (example_world\<lparr>ParseMultipartForm := Inr form_indexed\<rparr>))
     = (2, ''512 B'') \<and>
   fst (getImageCountAndSizeInfo (Sprintf_f1 example_deps) (example_world\<lparr>Request_MultipartForm := Some [(''mask'', [])]\<rparr>))
     = (0, '''')"
proof -
  have 1: "imageParts_spec form_image_and_array = [\<lparr>Filename = ''a.png'', FileSize = 512\<rparr>]"
    by (simp add: imageParts_spec_def form_image_and_array_def)
  have 2: "imageParts_spec form_indexed
             = [\<lparr>Filename = ''a.png'', FileSize = 300\<rparr>, \<lparr>Filename = ''b.png'', FileSize = 212\<rparr>]"
    by (simp add: imageParts_spec_def form_indexed_def)
  have 3: "imageParts_spec [(''mask'', [])] = []"
    by (simp add: imageParts_spec_def)
  have f: "formatSizeInfo (Sprintf_f1 example_deps) 512 = ''512 B''"
    by (simp add: formatSizeInfo_def show_nat_512 word_sless_alt)
  from image_metadata_first_match_wins[of "example_world\<lparr>Request_MultipartForm := Some form_image_and_array\<rparr>"
         form_image_and_array "Sprintf_f1 example_deps"]
    image_metadata_first_match_wins[of "example_world\<lparr>ParseMultipartForm := Inr form_indexed\<rparr>"
         form_indexed "Sprintf_f1 example_deps"]
    image_metadata_first_match_wins[of "example_world\<lparr>Request_MultipartForm := Some [(''mask'', [])]\<rparr>"
         "[(''mask'', [])]" "Sprintf_f1 example_deps"]
  show ?thesis
    by (simp add: 1 2 3 f example_world_def)
qed

text \<open>
  Claim C9. When \<^verbatim>\<open>DoRequest\<close> returns a response, line 105 sets the stream flag to
  its value before the line or the test that the content type starts with
  \<^verbatim>\<open>text/event-stream\<close>: an event-stream response makes it true whatever it was, and a
  flag that was true stays true. That is the flag of the relay info the run ends with
  when the status is not 200, and of the relay info \<^verbatim>\<open>DoResponse\<close> is called with when
  it is 200.
\<close>

theorem event_stream_response_sets_stream_flag:
  assumes prep: "ImageHelper_prepare d w0 = (Inr (request, adaptor), w1, calls1)"
    and body: "ImageHelper_body d adaptor request w1 = (Inr requestBody, w2, calls2)"
    and dr: "DoRequest d adaptor requestBody w2 = (Inr (RespHttp resp), w3)"
    and run: "ImageHelper d w0 = (out, w', calls)"
  shows "if StatusCode resp \<noteq> StatusOK
         then IsStream (info w') = (IsStream (info w3) \<or> prefix ''text/event-stream'' (ContentType resp))
         else (\<exists>i. filter is_DoResponse calls = [Call_DoResponse (Some resp) i]
                 \<and> IsStream i = (IsStream (info w3) \<or> prefix ''text/event-stream'' (ContentType resp)))"
proof (cases "StatusCode resp \<noteq> StatusOK")
  case True
  from remap_non_success[OF run prep body dr True] True show ?thesis by simp
next
  case False
  let ?w = "w3\<lparr>info := (info w3)\<lparr>IsStream :=
                IsStream (info w3) \<or> prefix ''text/event-stream'' (ContentType resp)\<rparr>\<rparr>"
  have req: "ImageHelper_request d adaptor requestBody w2 =
      (Inr (Some resp, status_code_mapping w2), ?w, [Call_DoRequest requestBody])"
    using dr False by (simp add: ImageHelper_request_def Let_def)
  from run_response[OF run prep body req] obtain calls4 where
    r: "ImageHelper_response d adaptor request (Some resp) (status_code_mapping w2) ?w = (out, w', calls4)"
    and c: "calls = calls1 @ calls2 @ [Call_DoRequest requestBody] @ calls4"
    by blast
  from response_calls[OF r] obtain more where
    m: "calls4 = Call_DoResponse (Some resp) (info ?w) # more" "list_all (\<lambda>c. 12 \<le> stage c) more"
    by blast
  then have "filter is_DoResponse more = []"
    by (auto simp: is_stage filter_empty_conv list_all_iff)
  with m c early_calls(3)[OF prep body, of requestBody] False show ?thesis
    by simp
qed

text \<open>
  Claim C9 at a run whose client did not ask for a stream and whose upstream answers
  200 with an event stream: \<^verbatim>\<open>DoResponse\<close> is called with the flag set.
\<close>

theorem stream_flag_witness:
  "\<not> IsStream (info example_world) \<and>
   (\<exists>i. filter is_DoResponse (snd (snd (ImageHelper event_stream_deps example_world)))
           = [Call_DoResponse (Some \<lparr>StatusCode = 200, ContentType = ''text/event-stream; charset=utf-8'',
                                      Body = ''''\<rparr>) i]
         \<and> IsStream i)"
proof -
  have dr: "DoRequest event_stream_deps 7 ''{model:dall-e-3}'' example_world
              = (Inr (RespHttp \<lparr>StatusCode = 200, ContentType = ''text/event-stream; charset=utf-8'',
                                 Body = ''''\<rparr>), example_world)"
    by (simp add: example_defs)
  from event_stream_response_sets_stream_flag[OF event_stream_prepare event_stream_body dr run_triple]
  show ?thesis by (simp add: example_defs StatusOK_def)
qed

text \<open>
  Claim C10. With passthrough disabled, when \<^verbatim>\<open>ConvertImageRequest\<close> returns a
  \<^verbatim>\<open>*bytes.Buffer\<close>, \<^verbatim>\<open>DoRequest\<close> is called exactly once, with that buffer, and neither
  \<^verbatim>\<open>Marshal\<close> nor \<^verbatim>\<open>ApplyParamOverride\<close> is called, whatever the override set is. In
  every run, a call of \<^verbatim>\<open>ApplyParamOverride\<close> is on the serialization branch: the run
  has called \<^verbatim>\<open>Marshal\<close>, and the override is applied to what it returned.
\<close>

theorem raw_buffer_is_sent_without_override:
  assumes run: "ImageHelper d w0 = (out, w', calls)"
  shows "(\<forall>request adaptor w1 calls1 buf w2.
            ImageHelper_prepare d w0 = (Inr (request, adaptor), w1, calls1)
            \<and> \<not> (PassThroughRequestEnabled w1 \<or> PassThroughBodyEnabled (info w1))
            \<and> ConvertImageRequest d adaptor request w1 = (Inr (BytesBuffer buf), w2) \<longrightarrow>
            filter is_DoRequest calls = [Call_DoRequest buf]
            \<and> list_all (\<lambda>c. \<not> is_ApplyParamOverride c \<and> \<not> is_Marshal c) calls)
       \<and> (\<forall>j ov. Call_ApplyParamOverride j ov \<in> set calls \<longrightarrow>
            (\<exists>payload. Call_Marshal payload \<in> set calls \<and> Marshal d payload = Inr j))"
proof (intro conjI allI impI)
  fix request adaptor w1 calls1 buf w2
  assume "ImageHelper_prepare d w0 = (Inr (request, adaptor), w1, calls1)
            \<and> \<not> (PassThroughRequestEnabled w1 \<or> PassThroughBodyEnabled (info w1))
            \<and> ConvertImageRequest d adaptor request w1 = (Inr (BytesBuffer buf), w2)"
  then have "ImageHelper_prepare d w0 = (Inr (request, adaptor), w1, calls1)"
    "\<not> (PassThroughRequestEnabled w1 \<or> PassThroughBodyEnabled (info w1))"
    "ConvertImageRequest d adaptor request w1 = (Inr (BytesBuffer buf), w2)"
    by simp_all
  from raw_buffer_branch[OF this run]
  show "filter is_DoRequest calls = [Call_DoRequest buf]"
    "list_all (\<lambda>c. \<not> is_ApplyParamOverride c \<and> \<not> is_Marshal c) calls"
    by simp_all
next
  fix j ov
  assume "Call_ApplyParamOverride j ov \<in> set calls"
  from override_follows_marshal[OF run this]
  show "\<exists>payload. Call_Marshal payload \<in> set calls \<and> Marshal d payload = Inr j"
    by auto
qed

text \<open>
  Claim C10 at a run with a non-empty override set and an adaptor that returns a
  buffer: the buffer is sent, no override is applied.
\<close>

theorem raw_buffer_witness:
  "ParamOverride (info override_world) = [(''quality'', ''hd'')] \<and>
   filter is_DoRequest (snd (snd (ImageHelper raw_buffer_deps override_world)))
     = [Call_DoRequest ''--boundary multipart body--''] \<and>
   list_all (\<lambda>c. \<not> is_ApplyParamOverride c \<and> \<not> is_Marshal c)
     (snd (snd (ImageHelper raw_buffer_deps override_world)))"
proof -
  have a: "ImageHelper_prepare raw_buffer_deps override_world =
             (Inr (example_request, 7), override_world,
              [Call_InitChannelMeta, Call_DeepCopy example_request, Call_ModelMappedHelper example_request,
               Call_GetAdaptor 1, Call_Init])
           \<and> \<not> (PassThroughRequestEnabled override_world \<or> PassThroughBodyEnabled (info override_world))
           \<and> ConvertImageRequest raw_buffer_deps 7 example_request override_world
                = (Inr (BytesBuffer ''--boundary multipart body--''), override_world)"
    using override_prepare_raw_buffer by (simp add: example_defs)
  from raw_buffer_is_sent_without_override[OF run_triple, of raw_buffer_deps override_world] a
  have "filter is_DoRequest (snd (snd (ImageHelper raw_buffer_deps override_world)))
          = [Call_DoRequest ''--boundary multipart body--'']
        \<and> list_all (\<lambda>c. \<not> is_ApplyParamOverride c \<and> \<not> is_Marshal c)
            (snd (snd (ImageHelper raw_buffer_deps override_world)))"
    by blast
  then show ?thesis by (simp add: example_defs)
qed

end
